theory Spec2Isabelle
  imports Main "HOL-Library.AList"
begin

section \<open>Results, catalog rows and the entity graph\<close>

text \<open>
  A Go \<open>error\<close> value is modelled by its message.  A function that returns
  \<open>(x, error)\<close> becomes a function into \<open>error + 'a\<close> (\<open>Inl\<close> the error).
  A function that can also stop with a run-time panic (a nil pointer dereference)
  returns a \<open>result\<close>, where the panic is a third outcome, distinct from a
  returned error value.
\<close>

datatype error = Error string

datatype 'a result = Ok 'a | Err error | Panic

text \<open>
  The rows of package \<open>models\<close> (generated code, not among the sources), with the
  fields that the loaders read or write.
\<close>

record Column =
  ColumnName :: string
  DataType :: string
  NotNull :: bool
  IsPrimaryKey :: bool

record Table =
  TableName :: string
  Type :: string
  ManualPk :: bool

record models_ForeignKey =
  ForeignKeyName :: string
  ColumnName :: string
  RefTableName :: string
  RefColumnName :: string

record models_Index =
  IndexName :: string
  IsUnique :: bool
  IsPrimary :: bool
  Origin :: string

record IndexColumn =
  Cid :: int
  ColumnName :: string

record Sequence =
  TableName :: string

record CrAutoincrement =
  TableName :: string

datatype RelType = Table | View

text \<open>
  The templates of package \<open>internal\<close>.  Pointers to fields and relations are
  modelled by the values they point to.  The \<open>ForeignKeys\<close> slice that
  \<open>LoadRelkind\<close> attaches to a relation in sqlx mode points back to the relation
  itself; it is kept beside the relation, not inside the record.
\<close>

record Field =
  Name :: string
  Type :: string
  NilType :: string
  Len :: int
  Col :: Column

record Type =
  Name :: string
  Schema :: string
  RelType :: RelType
  PrimaryKey :: "Field option"
  PrimaryKeyFields :: "Field list"
  Fields :: "Field list"
  Table :: Table
  Comment :: string
  Sqlx :: bool

record ForeignKey =
  Name :: string
  Schema :: string
  Type :: Type
  Field :: Field
  RefType :: Type
  RefField :: Field
  ForeignKey :: models_ForeignKey

record Index =
  FuncName :: string
  Schema :: string
  Type :: Type
  Fields :: "Field list"
  Index :: models_Index

record models_Enum =
  EnumName :: string

record models_EnumValue =
  EnumValue :: string

record models_Proc =
  ProcName :: string
  ReturnType :: string

record ProcParam =
  ParamType :: string

record EnumValue =
  Name :: string
  Val :: models_EnumValue

record Enum =
  Name :: string
  Schema :: string
  Values :: "EnumValue list"
  Enum :: models_Enum
  ReverseConstNames :: bool

record Proc =
  Name :: string
  Schema :: string
  ProcParams :: string
  Params :: "Field list"
  Return :: Field
  Proc :: models_Proc

section \<open>The environment of the loaders\<close>

text \<open>
  The database handle.  \<open>Exec\<close> appends the statement to \<open>Executed\<close>, the
  list of statements run so far, and answers with \<open>ExecResult\<close>;
  \<open>QueryRowScan\<close> is the outcome of \<open>QueryRow(q, arg).Scan(&s)\<close>.
\<close>

record XODB =
  Executed :: "string list"
  ExecResult :: "string \<Rightarrow> error option"
  QueryRowScan :: "string \<Rightarrow> string \<Rightarrow> error + string"

definition Exec :: "XODB \<Rightarrow> string \<Rightarrow> XODB \<times> error option" where
  "Exec db q = (db\<lparr>Executed := Executed db @ [q]\<rparr>, ExecResult db q)"

datatype PgtypeMode = PgtypeModeStd | PgtypeModeFull | PgtypeModePointer | PgtypeModePgtype

datatype TemplateType =
  EnumTemplate | ProcTemplate | TypeTemplate | ForeignKeyTemplate | IndexTemplate

datatype TemplateObj =
  EnumObj Enum
  | ProcObj Proc
  | TypeObj Type "ForeignKey list"
  | ForeignKeyObj ForeignKey
  | IndexObj Index

text \<open>
  \<open>ArgType\<close> is declared in a file of package \<open>internal\<close> that is not among the
  sources.  The record has the fields that the loaders read, and its methods as
  function-valued fields: \<open>ParsePrecision\<close> returns the type without its
  parenthesised suffix, the precision and the scale; \<open>ExecuteTemplate\<close> returns the
  error of rendering a template, if any; \<open>BuildIndexFuncName\<close> returns the name it
  stores in the \<open>FuncName\<close> of the index; \<open>ForeignKeyName\<close> returns the name of a
  foreign key, given the current values of the foreign-key map.
\<close>

record ArgType =
  DB :: XODB
  Schema :: string
  DSN :: string
  LoaderType :: string
  IgnoreTables :: "string list"
  IgnoreFields :: "string list"
  Sqlx :: bool
  UseReversedEnumConstNames :: bool
  KnownTypeMap :: "string \<Rightarrow> bool"
  PgtypeMode :: PgtypeMode
  Int32Type :: string
  Uint32Type :: string
  ParsePrecision :: "string \<Rightarrow> string \<times> int \<times> int"
  ExecuteTemplate :: "TemplateType \<Rightarrow> string \<Rightarrow> string \<Rightarrow> TemplateObj \<Rightarrow> error option"
  BuildIndexFuncName :: "Index \<Rightarrow> string"
  ForeignKeyName :: "(string \<times> ForeignKey) list \<Rightarrow> ForeignKey \<Rightarrow> string"

text \<open>
  Functions of the Go standard library and of the package \<open>dburl\<close>, and
  \<open>SingularizeIdentifier\<close>, \<open>GenRandomID\<close> and \<open>RelType.String\<close> of package
  \<open>internal\<close>, none of which is among the sources.  \<open>SnakeToCamelIdentifier\<close> of
  package \<open>snaker\<close> is a parameter as well: the loaders only store the names
  that it returns.  Every theorem below holds for all values of these parameters.
  \<open>dburl_Parse\<close> returns the \<open>Unaliased\<close> driver name of the URL;
  \<open>rand_Int n\<close> is the value of the \<open>n\<close>-th call of \<open>rand.Int\<close> in the process.
\<close>

record Externals =
  ToLower :: "string \<Rightarrow> string"
  TrimSpace :: "string \<Rightarrow> string"
  SnakeToCamelIdentifier :: "string \<Rightarrow> string"
  SingularizeIdentifier :: "string \<Rightarrow> string"
  dburl_Parse :: "string \<Rightarrow> error + string"
  rand_Int :: "nat \<Rightarrow> nat"
  GenRandomID :: string
  RelType_String :: "RelType \<Rightarrow> string"

text \<open>
  \<open>TypeLoader\<close>: the adapter.  A field that the adapter may leave unset (nil) is an
  option.  The catalog queries take the database handle, the schema and their
  other arguments.
\<close>

record TypeLoader =
  ProcessRelkind :: "(RelType \<Rightarrow> string) option"
  ParseType :: "ArgType \<Rightarrow> string \<Rightarrow> bool \<Rightarrow> int \<times> string \<times> string"
  EnumList :: "(XODB \<Rightarrow> string \<Rightarrow> error + models_Enum list) option"
  EnumValueList :: "XODB \<Rightarrow> string \<Rightarrow> string \<Rightarrow> error + models_EnumValue list"
  ProcList :: "(XODB \<Rightarrow> string \<Rightarrow> error + models_Proc list) option"
  ProcParamList :: "XODB \<Rightarrow> string \<Rightarrow> string \<Rightarrow> error + ProcParam list"
  TableList :: "XODB \<Rightarrow> string \<Rightarrow> string \<Rightarrow> error + Table list"
  ColumnList :: "XODB \<Rightarrow> string \<Rightarrow> string \<Rightarrow> error + Column list"
  ForeignKeyList :: "XODB \<Rightarrow> string \<Rightarrow> string \<Rightarrow> error + models_ForeignKey list"
  IndexList :: "XODB \<Rightarrow> string \<Rightarrow> string \<Rightarrow> error + models_Index list"
  IndexColumnList :: "XODB \<Rightarrow> string \<Rightarrow> string \<Rightarrow> string \<Rightarrow> error + IndexColumn list"

section \<open>Loading the columns of a relation\<close>

text \<open>
  The inner loop of \<open>LoadColumns\<close>: \<open>ignore\<close> becomes true when an entry of the
  ignore list equals the column name after both are lower-cased.
\<close>

definition ignoreColumn :: "Externals \<Rightarrow> ArgType \<Rightarrow> Column \<Rightarrow> bool" where
  "ignoreColumn X args c =
     foldl (\<lambda>ignore ignoreField.
              if ToLower X ignoreField = ToLower X (Column.ColumnName c) then True else ignore)
       False (IgnoreFields args)"

text \<open>The field that \<open>LoadColumns\<close> creates for a column (\<open>set col info\<close>).\<close>

definition columnField :: "Externals \<Rightarrow> TypeLoader \<Rightarrow> ArgType \<Rightarrow> Column \<Rightarrow> Field" where
  "columnField X ldr args c =
     (case ParseType ldr args (DataType c) (\<not> NotNull c) of
        (len, nilType, typ) \<Rightarrow>
          \<lparr>Field.Name = SnakeToCamelIdentifier X (Column.ColumnName c),
           Field.Type = typ, NilType = nilType, Len = len, Col = c\<rparr>)"

text \<open>One iteration of the loop over the column list.\<close>

definition LoadColumns_step :: "Externals \<Rightarrow> TypeLoader \<Rightarrow> ArgType \<Rightarrow> Type \<Rightarrow> Column \<Rightarrow> Type" where
  "LoadColumns_step X ldr args typeTpl c =
     (if ignoreColumn X args c then typeTpl
      else
        let f = columnField X ldr args c;
            typeTpl1 =
              (if IsPrimaryKey c
               then typeTpl\<lparr>PrimaryKeyFields := PrimaryKeyFields typeTpl @ [f],
                            PrimaryKey := Some f\<rparr>
               else typeTpl)
        in typeTpl1\<lparr>Type.Fields := Type.Fields typeTpl1 @ [f]\<rparr>)"

definition LoadColumns :: "Externals \<Rightarrow> TypeLoader \<Rightarrow> ArgType \<Rightarrow> Type \<Rightarrow> error + Type" where
  "LoadColumns X ldr args typeTpl =
     (case ColumnList ldr (DB args) (ArgType.Schema args) (Table.TableName (Type.Table typeTpl)) of
        Inl err \<Rightarrow> Inl err
      | Inr columnList \<Rightarrow> Inr (foldl (LoadColumns_step X ldr args) typeTpl columnList))"

text \<open>The template that \<open>LoadRelkind\<close> creates for a row of the table list.\<close>

definition newTypeTpl :: "Externals \<Rightarrow> ArgType \<Rightarrow> RelType \<Rightarrow> Table \<Rightarrow> Type" where
  "newTypeTpl X args relType ti =
     \<lparr>Type.Name = SingularizeIdentifier X (Table.TableName ti),
      Type.Schema = ArgType.Schema args,
      RelType = relType,
      PrimaryKey = None,
      PrimaryKeyFields = [],
      Type.Fields = [],
      Type.Table = ti,
      Comment = [],
      Type.Sqlx = False\<rparr>"

section \<open>Loops that stop at the first error\<close>

text \<open>
  A \<open>for\<close> loop over a slice whose body returns from the function on an error.
  A Go map is an association list with distinct keys; \<open>m[k] = v\<close> is
  \<open>AList.update k v m\<close>.  Go chooses the order in which a loop visits a map anew
  for every loop; the model visits every map in the order of its list, which is
  one of these orders.  The order decides which error a loop returns when
  several of its iterations fail, which random number a foreign key gets in its
  key of the foreign-key map, and the relation that a foreign key finds in a
  map with two relations of one table name (\<open>LoadRelkind\<close> builds no such
  map).  No conclusion below depends on it: the theorems speak of the maps
  through \<open>map_of\<close> and of loops over slices, and where a foreign key looks a
  relation up, the relation that it finds is a hypothesis.
\<close>

fun forE :: "('s \<Rightarrow> 'a \<Rightarrow> error + 's) \<Rightarrow> 's \<Rightarrow> 'a list \<Rightarrow> error + 's" where
  "forE body s [] = Inr s"
| "forE body s (x # xs) =
     (case body s x of Inl err \<Rightarrow> Inl err | Inr s' \<Rightarrow> forE body s' xs)"

fun forR :: "('s \<Rightarrow> 'a \<Rightarrow> 's result) \<Rightarrow> 's \<Rightarrow> 'a list \<Rightarrow> 's result" where
  "forR body s [] = Ok s"
| "forR body s (x # xs) =
     (case body s x of Ok s' \<Rightarrow> forR body s' xs | Err err \<Rightarrow> Err err | Panic \<Rightarrow> Panic)"

section \<open>Strings\<close>

definition HasPrefix :: "string \<Rightarrow> string \<Rightarrow> bool" where
  "HasPrefix s p = (take (length p) s = p)"

definition HasSuffix :: "string \<Rightarrow> string \<Rightarrow> bool" where
  "HasSuffix s p = (length p \<le> length s \<and> drop (length s - length p) s = p)"

text \<open>\<open>strings.Contains\<close>: \<open>substr\<close> occurs in \<open>s\<close> at some position.\<close>

fun Contains :: "string \<Rightarrow> string \<Rightarrow> bool" where
  "Contains [] substr = (substr = [])"
| "Contains (c # s) substr = (HasPrefix (c # s) substr \<or> Contains s substr)"

fun Join :: "string list \<Rightarrow> string \<Rightarrow> string" where
  "Join [] sep = []"
| "Join [x] sep = x"
| "Join (x # y # ys) sep = x @ sep @ Join (y # ys) sep"

text \<open>\<open>strconv.Itoa\<close> on a number that is not negative.\<close>

definition digit :: "nat \<Rightarrow> char" where
  "digit d = ''0123456789'' ! d"

function Itoa :: "nat \<Rightarrow> string" where
  "Itoa n = (if n < 10 then [digit n] else Itoa (n div 10) @ [digit (n mod 10)])"
  by pat_completeness auto
termination
  by (relation "measure (\<lambda>n. n)") auto

section \<open>Indexes\<close>

text \<open>
  \<open>LoadIndexColumns\<close>: an index column whose name is the column name of no field
  of the relation is skipped (\<open>continue\<close>).
\<close>

definition LoadIndexColumns_step :: "Index \<Rightarrow> IndexColumn \<Rightarrow> Index" where
  "LoadIndexColumns_step ixTpl ic =
     (case find (\<lambda>f. Column.ColumnName (Col f) = IndexColumn.ColumnName ic)
             (Type.Fields (Index.Type ixTpl)) of
        None \<Rightarrow> ixTpl
      | Some field \<Rightarrow> ixTpl\<lparr>Index.Fields := Index.Fields ixTpl @ [field]\<rparr>)"

definition LoadIndexColumns :: "TypeLoader \<Rightarrow> ArgType \<Rightarrow> Index \<Rightarrow> error + Index" where
  "LoadIndexColumns ldr args ixTpl =
     (case IndexColumnList ldr (DB args) (ArgType.Schema args)
             (Table.TableName (Type.Table (Index.Type ixTpl)))
             (IndexName (Index.Index ixTpl)) of
        Inl err \<Rightarrow> Inl err
      | Inr indexCols \<Rightarrow> Inr (foldl LoadIndexColumns_step ixTpl indexCols))"

text \<open>
  One iteration of the loop of \<open>LoadTableIndexes\<close> over the index list; the state is
  \<open>priIxLoaded\<close> and the index map.
\<close>

definition LoadTableIndexes_step ::
  "TypeLoader \<Rightarrow> ArgType \<Rightarrow> Type \<Rightarrow> bool \<times> (string \<times> Index) list \<Rightarrow> models_Index
     \<Rightarrow> error + bool \<times> (string \<times> Index) list" where
  "LoadTableIndexes_step ldr args typeTpl st ix =
     (case st of (priIxLoaded, ixMap) \<Rightarrow>
        let priIxLoaded1 = (priIxLoaded \<or> IsPrimary ix \<or> Origin ix = ''pk'');
            ixTpl = \<lparr>FuncName = [], Index.Schema = ArgType.Schema args, Index.Type = typeTpl,
                     Index.Fields = [], Index.Index = ix\<rparr>
        in (case LoadIndexColumns ldr args ixTpl of
              Inl err \<Rightarrow> Inl err
            | Inr ixTpl1 \<Rightarrow>
                (let ixTpl2 = ixTpl1\<lparr>FuncName := BuildIndexFuncName args ixTpl1\<rparr>
                 in Inr (priIxLoaded1,
                         AList.update (Table.TableName (Type.Table typeTpl) @ ''_'' @ IndexName ix)
                           ixTpl2 ixMap))))"

text \<open>The primary key that \<open>LoadTableIndexes\<close> looks for after the loop.\<close>

definition searchPrimaryKey :: "Type \<Rightarrow> Field option" where
  "searchPrimaryKey typeTpl =
     (case PrimaryKey typeTpl of
        Some pk \<Rightarrow> Some pk
      | None \<Rightarrow> find (\<lambda>f. IsPrimaryKey (Col f)) (Type.Fields typeTpl))"

definition pkeyIndexName :: "Type \<Rightarrow> Field \<Rightarrow> string" where
  "pkeyIndexName typeTpl pk =
     Table.TableName (Type.Table typeTpl) @ ''_'' @ Column.ColumnName (Col pk) @ ''_pkey''"

text \<open>The index that \<open>LoadTableIndexes\<close> creates for a primary key without index.\<close>

definition pkeyIndex :: "ArgType \<Rightarrow> Type \<Rightarrow> Field \<Rightarrow> Index" where
  "pkeyIndex args typeTpl pk =
     \<lparr>FuncName = Type.Name typeTpl @ ''By'' @ Field.Name pk,
      Index.Schema = ArgType.Schema args,
      Index.Type = typeTpl,
      Index.Fields = [pk],
      Index.Index = \<lparr>IndexName = pkeyIndexName typeTpl pk, IsUnique = True, IsPrimary = True,
                      Origin = []\<rparr>\<rparr>"

definition LoadTableIndexes ::
  "TypeLoader \<Rightarrow> ArgType \<Rightarrow> Type \<Rightarrow> (string \<times> Index) list \<Rightarrow> error + (string \<times> Index) list" where
  "LoadTableIndexes ldr args typeTpl ixMap =
     (case IndexList ldr (DB args) (ArgType.Schema args) (Table.TableName (Type.Table typeTpl)) of
        Inl err \<Rightarrow> Inl err
      | Inr indexList \<Rightarrow>
          (case forE (LoadTableIndexes_step ldr args typeTpl) (False, ixMap) indexList of
             Inl err \<Rightarrow> Inl err
           | Inr (priIxLoaded, ixMap1) \<Rightarrow>
               (case searchPrimaryKey typeTpl of
                  Some pk \<Rightarrow>
                    if LoaderType args \<noteq> ''ora'' \<and> \<not> priIxLoaded
                    then Inr (AList.update (pkeyIndexName typeTpl pk)
                                (pkeyIndex args typeTpl pk) ixMap1)
                    else Inr ixMap1
                | None \<Rightarrow> Inr ixMap1)))"

section \<open>Foreign keys\<close>

text \<open>
  \<open>extractProperForeignKeys\<close>: for CockroachDB, the rows whose constraint name
  contains their column name, appended one by one to a new list.
\<close>

definition extractProperForeignKeys ::
  "Externals \<Rightarrow> models_ForeignKey list \<Rightarrow> string \<Rightarrow> error + models_ForeignKey list" where
  "extractProperForeignKeys X fkList dsn =
     (case dburl_Parse X dsn of
        Inl err \<Rightarrow> Inl err
      | Inr unaliased \<Rightarrow>
          let isCockroachDB = (unaliased = ''cockroachdb'')
          in if isCockroachDB
             then Inr (foldl (\<lambda>newForeignKeyList fk.
                                if Contains (models_ForeignKey.ForeignKeyName fk) (models_ForeignKey.ColumnName fk)
                                then newForeignKeyList @ [fk] else newForeignKeyList)
                         [] fkList)
             else Inr fkList)"

text \<open>
  One iteration of the loop of \<open>GetTableForeignKeys\<close>.  The state is the slice
  \<open>foreignKeys\<close>, the map \<open>fkMap\<close> (\<open>None\<close> when the caller passes nil) and the number
  of calls of \<open>rand.Int\<close> made so far.  The loop over \<open>refTpl.Fields\<close> reads a field
  of \<open>refTpl\<close>: when no relation of the map has the referenced table name,
  \<open>refTpl\<close> is nil and the read panics, before the check that everything was found.
\<close>

definition GetTableForeignKeys_step ::
  "Externals \<Rightarrow> ArgType \<Rightarrow> (string \<times> Type) list \<Rightarrow> Type
     \<Rightarrow> ForeignKey list \<times> (string \<times> ForeignKey) list option \<times> nat \<Rightarrow> models_ForeignKey
     \<Rightarrow> (ForeignKey list \<times> (string \<times> ForeignKey) list option \<times> nat) result" where
  "GetTableForeignKeys_step X args tableMap typeTpl st fk =
     (case st of (foreignKeys, fkMap, n) \<Rightarrow>
        (let col = find (\<lambda>f. Column.ColumnName (Col f) = models_ForeignKey.ColumnName fk)
                     (Type.Fields typeTpl);
             refTpl = find (\<lambda>t. Table.TableName (Type.Table t) = RefTableName fk)
                        (map snd tableMap)
         in (case refTpl of
               None \<Rightarrow> Panic
             | Some refTplv \<Rightarrow>
                 (let refCol0 = find (\<lambda>f. Column.ColumnName (Col f) = RefColumnName fk)
                                  (Type.Fields refTplv);
                      refCol = (case refCol0 of None \<Rightarrow> PrimaryKey refTplv | Some f \<Rightarrow> Some f)
                  in (case (col, refCol) of
                        (Some colv, Some refColv) \<Rightarrow>
                          (let fk1 = (if models_ForeignKey.ForeignKeyName fk = []
                                      then fk\<lparr>models_ForeignKey.ForeignKeyName :=
                                             Table.TableName (Type.Table typeTpl) @ ''_''
                                             @ Column.ColumnName (Col colv) @ ''_fkey''\<rparr>
                                      else fk);
                               foreignKey = \<lparr>ForeignKey.Name = [],
                                             ForeignKey.Schema = ArgType.Schema args,
                                             ForeignKey.Type = typeTpl,
                                             ForeignKey.Field = colv,
                                             RefType = refTplv,
                                             RefField = refColv,
                                             ForeignKey.ForeignKey = fk1\<rparr>
                           in (case fkMap of
                                 None \<Rightarrow> Ok (foreignKeys @ [foreignKey], None, n)
                               | Some m \<Rightarrow>
                                   (let randNum = ''_'' @ Itoa (rand_Int X n)
                                    in Ok (foreignKeys @ [foreignKey],
                                           Some (AList.update
                                                   (models_ForeignKey.ForeignKeyName fk1 @ randNum)
                                                   foreignKey m),
                                           Suc n))))
                      | _ \<Rightarrow> Err (Error ''could not find col, refTpl, or refCol''))))))"

definition GetTableForeignKeys ::
  "Externals \<Rightarrow> ArgType \<Rightarrow> (string \<times> Type) list \<Rightarrow> Type
     \<Rightarrow> (string \<times> ForeignKey) list option \<Rightarrow> models_ForeignKey list \<Rightarrow> nat
     \<Rightarrow> (ForeignKey list \<times> (string \<times> ForeignKey) list option \<times> nat) result" where
  "GetTableForeignKeys X args tableMap typeTpl fkMap foreignKeyList n =
     forR (GetTableForeignKeys_step X args tableMap typeTpl) ([], fkMap, n) foreignKeyList"

text \<open>
  \<open>LoadTableForeignKeys\<close>, with the foreign-key map and the number of random
  draws as state.
\<close>

definition LoadTableForeignKeys ::
  "Externals \<Rightarrow> TypeLoader \<Rightarrow> ArgType \<Rightarrow> (string \<times> Type) list
     \<Rightarrow> (string \<times> ForeignKey) list \<times> nat \<Rightarrow> Type
     \<Rightarrow> ((string \<times> ForeignKey) list \<times> nat) result" where
  "LoadTableForeignKeys X ldr args tableMap st typeTpl =
     (case st of (fkMap, n) \<Rightarrow>
        (case ForeignKeyList ldr (DB args) (ArgType.Schema args)
                (Table.TableName (Type.Table typeTpl)) of
           Inl err \<Rightarrow> Err err
         | Inr foreignKeyList \<Rightarrow>
             (case extractProperForeignKeys X foreignKeyList (DSN args) of
                Inl err \<Rightarrow> Err err
              | Inr foreignKeyList1 \<Rightarrow>
                  (case GetTableForeignKeys X args tableMap typeTpl (Some fkMap)
                          foreignKeyList1 n of
                     Ok (foreignKeys, fkMapOpt, n1) \<Rightarrow>
                       Ok (case fkMapOpt of Some fkMap1 \<Rightarrow> fkMap1 | None \<Rightarrow> fkMap, n1)
                   | Err err \<Rightarrow> Err err
                   | Panic \<Rightarrow> Panic))))"

text \<open>
  The loop of \<open>LoadForeignKeys\<close> that names the foreign keys.  The map holds
  pointers, so \<open>ForeignKeyName\<close> sees the names that earlier iterations stored:
  \<open>done\<close> are the entries already named, the second list those still to be named.
\<close>

fun setForeignKeyNames ::
  "ArgType \<Rightarrow> (string \<times> ForeignKey) list \<Rightarrow> (string \<times> ForeignKey) list
     \<Rightarrow> (string \<times> ForeignKey) list" where
  "setForeignKeyNames args done [] = done"
| "setForeignKeyNames args done ((k, fk) # rest) =
     setForeignKeyNames args
       (done @ [(k, fk\<lparr>ForeignKey.Name := ArgType.ForeignKeyName args (done @ (k, fk) # rest) fk\<rparr>)])
       rest"

definition LoadForeignKeys ::
  "Externals \<Rightarrow> TypeLoader \<Rightarrow> ArgType \<Rightarrow> (string \<times> Type) list \<Rightarrow> nat
     \<Rightarrow> ((string \<times> ForeignKey) list \<times> nat) result" where
  "LoadForeignKeys X ldr args tableMap n =
     (case forR (LoadTableForeignKeys X ldr args tableMap) ([], n) (map snd tableMap) of
        Err err \<Rightarrow> Err err
      | Panic \<Rightarrow> Panic
      | Ok (fkMap, n1) \<Rightarrow>
          (let fkMap1 = setForeignKeyNames args [] fkMap
           in (case forE (\<lambda>u fk.
                            case ExecuteTemplate args ForeignKeyTemplate
                                   (Type.Name (ForeignKey.Type fk))
                                   (models_ForeignKey.ForeignKeyName (ForeignKey.ForeignKey fk))
                                   (ForeignKeyObj fk) of
                              Some err \<Rightarrow> Inl err
                            | None \<Rightarrow> Inr u)
                        () (map snd fkMap1) of
                 Inl err \<Rightarrow> Err err
               | Inr u \<Rightarrow> Ok (fkMap1, n1))))"

definition LoadIndexes ::
  "TypeLoader \<Rightarrow> ArgType \<Rightarrow> (string \<times> Type) list \<Rightarrow> error + (string \<times> Index) list" where
  "LoadIndexes ldr args tableMap =
     (case forE (\<lambda>ixMap t. LoadTableIndexes ldr args t ixMap) [] (map snd tableMap) of
        Inl err \<Rightarrow> Inl err
      | Inr ixMap \<Rightarrow>
          (case forE (\<lambda>u ix.
                        case ExecuteTemplate args IndexTemplate (Type.Name (Index.Type ix))
                               (IndexName (Index.Index ix)) (IndexObj ix) of
                          Some err \<Rightarrow> Inl err
                        | None \<Rightarrow> Inr u)
                    () (map snd ixMap) of
             Inl err \<Rightarrow> Inl err
           | Inr u \<Rightarrow> Inr ixMap))"

section \<open>Relations\<close>

definition Relkind :: "Externals \<Rightarrow> TypeLoader \<Rightarrow> RelType \<Rightarrow> string" where
  "Relkind X ldr rt =
     (case ProcessRelkind ldr of Some f \<Rightarrow> f rt | None \<Rightarrow> RelType_String X rt)"

text \<open>The loop over \<open>args.IgnoreTables\<close>, which breaks at the first match.\<close>

definition ignoreTable :: "Externals \<Rightarrow> ArgType \<Rightarrow> Table \<Rightarrow> bool" where
  "ignoreTable X args ti =
     list_ex (\<lambda>ignoreTable. ToLower X ignoreTable = ToLower X (Table.TableName ti))
       (IgnoreTables args)"

definition LoadRelkind_step ::
  "Externals \<Rightarrow> TypeLoader \<Rightarrow> ArgType \<Rightarrow> RelType \<Rightarrow> (string \<times> Type) list \<Rightarrow> Table
     \<Rightarrow> error + (string \<times> Type) list" where
  "LoadRelkind_step X ldr args relType tableMap ti =
     (if ignoreTable X args ti then Inr tableMap
      else (case LoadColumns X ldr args (newTypeTpl X args relType ti) of
              Inl err \<Rightarrow> Inl err
            | Inr typeTpl \<Rightarrow> Inr (AList.update (Table.TableName ti) typeTpl tableMap)))"

text \<open>
  The foreign keys that the second loop of \<open>LoadRelkind\<close> attaches to a relation
  in sqlx mode.  The error of \<open>extractProperForeignKeys\<close> is overwritten by the
  next assignment before it is read: an error there leaves a nil list of rows.
\<close>

definition sqlxForeignKeys ::
  "Externals \<Rightarrow> TypeLoader \<Rightarrow> ArgType \<Rightarrow> (string \<times> Type) list \<Rightarrow> Type
     \<Rightarrow> ForeignKey list result" where
  "sqlxForeignKeys X ldr args tableMap t =
     (case ForeignKeyList ldr (DB args) (ArgType.Schema args) (Table.TableName (Type.Table t)) of
        Inl err \<Rightarrow> Err err
      | Inr foreignKeyList \<Rightarrow>
          (let foreignKeyList1 =
                 (case extractProperForeignKeys X foreignKeyList (DSN args) of
                    Inl err \<Rightarrow> []
                  | Inr l \<Rightarrow> l)
           in (case GetTableForeignKeys X args tableMap t None foreignKeyList1 0 of
                 Ok (foreignKeys, fkMapOpt, n1) \<Rightarrow> Ok foreignKeys
               | Err err \<Rightarrow> Err err
               | Panic \<Rightarrow> Panic)))"

text \<open>
  The second loop of \<open>LoadRelkind\<close> (\<open>generate table templates\<close>).  It writes
  through the pointers of the map: \<open>done\<close> are the relations already visited, with
  their \<open>Sqlx\<close> flag set, the second list those still to be visited.
\<close>

fun LoadRelkind_templates ::
  "Externals \<Rightarrow> TypeLoader \<Rightarrow> ArgType \<Rightarrow> (string \<times> Type) list \<Rightarrow> (string \<times> Type) list
     \<Rightarrow> (string \<times> Type) list result" where
  "LoadRelkind_templates X ldr args done [] = Ok done"
| "LoadRelkind_templates X ldr args done ((k, t) # rest) =
     (let t1 = t\<lparr>Type.Sqlx := ArgType.Sqlx args\<rparr>
      in (case (if ArgType.Sqlx args
                then sqlxForeignKeys X ldr args (done @ (k, t1) # rest) t1
                else Ok []) of
            Err err \<Rightarrow> Err err
          | Panic \<Rightarrow> Panic
          | Ok foreignKeys \<Rightarrow>
              (case ExecuteTemplate args TypeTemplate (Type.Name t1) [] (TypeObj t1 foreignKeys) of
                 Some err \<Rightarrow> Err err
               | None \<Rightarrow> LoadRelkind_templates X ldr args (done @ [(k, t1)]) rest)))"

definition LoadRelkind ::
  "Externals \<Rightarrow> TypeLoader \<Rightarrow> ArgType \<Rightarrow> RelType \<Rightarrow> (string \<times> Type) list result" where
  "LoadRelkind X ldr args relType =
     (case TableList ldr (DB args) (ArgType.Schema args) (Relkind X ldr relType) of
        Inl err \<Rightarrow> Err err
      | Inr tableList \<Rightarrow>
          (case forE (LoadRelkind_step X ldr args relType) [] tableList of
             Inl err \<Rightarrow> Err err
           | Inr tableMap \<Rightarrow> LoadRelkind_templates X ldr args [] tableMap))"

text \<open>The loop of \<open>LoadSchema\<close> that merges the views into the table map.\<close>

definition mergeViews :: "(string \<times> Type) list \<Rightarrow> (string \<times> Type) list \<Rightarrow> (string \<times> Type) list" where
  "mergeViews tableMap viewMap = foldl (\<lambda>m kv. AList.update (fst kv) (snd kv) m) tableMap viewMap"

section \<open>Enums and procedures\<close>

text \<open>
  One iteration of the loop of \<open>LoadEnumValues\<close>.  The redundant enum name is
  cut off by slicing \<open>name\<close> at the difference of the two lengths; the slice
  panics when the enum name is the longer one, which lower-casing, on which the
  test for the suffix is made, does not exclude.
\<close>

definition LoadEnumValues_step :: "Externals \<Rightarrow> Enum \<Rightarrow> models_EnumValue \<Rightarrow> Enum result" where
  "LoadEnumValues_step X enumTpl ev =
     (let name = SnakeToCamelIdentifier X (models_EnumValue.EnumValue ev)
      in if HasSuffix (ToLower X name) (ToLower X (Enum.Name enumTpl))
         then (if length name < length (Enum.Name enumTpl) then Panic
               else (let n = take (length name - length (Enum.Name enumTpl)) name;
                         name1 = (if 0 < length n then n else name)
                     in Ok (enumTpl\<lparr>Values := Values enumTpl
                                       @ [\<lparr>EnumValue.Name = name1, Val = ev\<rparr>]\<rparr>)))
         else Ok (enumTpl\<lparr>Values := Values enumTpl @ [\<lparr>EnumValue.Name = name, Val = ev\<rparr>]\<rparr>))"

definition LoadEnumValues :: "Externals \<Rightarrow> TypeLoader \<Rightarrow> ArgType \<Rightarrow> Enum \<Rightarrow> Enum result" where
  "LoadEnumValues X ldr args enumTpl =
     (case EnumValueList ldr (DB args) (ArgType.Schema args) (EnumName (Enum.Enum enumTpl)) of
        Inl err \<Rightarrow> Err err
      | Inr enumValues \<Rightarrow> forR (LoadEnumValues_step X) enumTpl enumValues)"

text \<open>
  \<open>LoadEnums\<close> returns the arguments, in which it has entered the enum names as
  known types, and the enum map (the empty list for the nil map).
\<close>

definition LoadEnums_step ::
  "Externals \<Rightarrow> TypeLoader \<Rightarrow> ArgType \<times> (string \<times> Enum) list \<Rightarrow> models_Enum
     \<Rightarrow> (ArgType \<times> (string \<times> Enum) list) result" where
  "LoadEnums_step X ldr st e =
     (case st of (args, enumMap) \<Rightarrow>
        (let enumTpl = \<lparr>Enum.Name = SingularizeIdentifier X (EnumName e),
                        Enum.Schema = ArgType.Schema args,
                        Values = [],
                        Enum.Enum = e,
                        ReverseConstNames = UseReversedEnumConstNames args\<rparr>
         in (case LoadEnumValues X ldr args enumTpl of
               Err err \<Rightarrow> Err err
             | Panic \<Rightarrow> Panic
             | Ok enumTpl1 \<Rightarrow>
                 Ok (args\<lparr>KnownTypeMap := (KnownTypeMap args)(Enum.Name enumTpl1 := True)\<rparr>,
                     AList.update (Enum.Name enumTpl1) enumTpl1 enumMap))))"

definition LoadEnums ::
  "Externals \<Rightarrow> TypeLoader \<Rightarrow> ArgType \<Rightarrow> (ArgType \<times> (string \<times> Enum) list) result" where
  "LoadEnums X ldr args =
     (case EnumList ldr of
        None \<Rightarrow> Ok (args, [])
      | Some enumListFn \<Rightarrow>
          (case enumListFn (DB args) (ArgType.Schema args) of
             Inl err \<Rightarrow> Err err
           | Inr enumList \<Rightarrow>
               (case forR (LoadEnums_step X ldr) (args, []) enumList of
                  Err err \<Rightarrow> Err err
                | Panic \<Rightarrow> Panic
                | Ok (args1, enumMap) \<Rightarrow>
                    (case forE (\<lambda>u e.
                                  case ExecuteTemplate args1 EnumTemplate (Enum.Name e) []
                                         (EnumObj e) of
                                    Some err \<Rightarrow> Inl err
                                  | None \<Rightarrow> Inr u)
                              () (map snd enumMap) of
                       Inl err \<Rightarrow> Err err
                     | Inr u \<Rightarrow> Ok (args1, enumMap)))))"

text \<open>
  A field of a procedure has no column: its \<open>Col\<close> is nil.  The model has the
  zero column in its place; no function below reads it.
\<close>

definition zeroField :: Field where
  "zeroField =
     \<lparr>Field.Name = [], Field.Type = [], NilType = [], Len = 0,
      Col = \<lparr>Column.ColumnName = [], DataType = [], NotNull = False, IsPrimaryKey = False\<rparr>\<rparr>"

text \<open>
  One iteration of the loop of \<open>LoadProcParams\<close>; the state is the template and
  the index \<open>i\<close> of the parameter.
\<close>

definition LoadProcParams_step ::
  "Externals \<Rightarrow> TypeLoader \<Rightarrow> ArgType \<Rightarrow> Proc \<times> nat \<Rightarrow> ProcParam \<Rightarrow> Proc \<times> nat" where
  "LoadProcParams_step X ldr args st p =
     (case st of (procTpl, i) \<Rightarrow>
        (case ParseType ldr args (TrimSpace X (ParamType p)) False of
           (l, nilType, typ) \<Rightarrow>
             (let paramTpl = zeroField\<lparr>Field.Name := ''v'' @ Itoa i, Field.Type := typ\<rparr>;
                  procTpl1 = (if ProcParams procTpl \<noteq> []
                              then procTpl\<lparr>ProcParams := ProcParams procTpl @ '', ''\<rparr>
                              else procTpl);
                  procTpl2 = procTpl1\<lparr>ProcParams := ProcParams procTpl1 @ ParamType p\<rparr>
              in (procTpl2\<lparr>Params := Params procTpl2 @ [paramTpl]\<rparr>, Suc i))))"

definition LoadProcParams :: "Externals \<Rightarrow> TypeLoader \<Rightarrow> ArgType \<Rightarrow> Proc \<Rightarrow> error + Proc" where
  "LoadProcParams X ldr args procTpl =
     (case ProcParamList ldr (DB args) (ArgType.Schema args) (ProcName (Proc.Proc procTpl)) of
        Inl err \<Rightarrow> Inl err
      | Inr paramList \<Rightarrow> Inr (fst (foldl (LoadProcParams_step X ldr args) (procTpl, 0) paramList)))"

definition LoadProcs_step ::
  "Externals \<Rightarrow> TypeLoader \<Rightarrow> ArgType \<Rightarrow> (string \<times> Proc) list \<Rightarrow> models_Proc
     \<Rightarrow> error + (string \<times> Proc) list" where
  "LoadProcs_step X ldr args procMap p =
     (let name = dropWhile (\<lambda>c. c = CHR ''_'') (ProcName p)
      in (case ParseType ldr args (ReturnType p) False of
            (l, nilType, typ) \<Rightarrow>
              (let procTpl = \<lparr>Proc.Name = SnakeToCamelIdentifier X name,
                              Proc.Schema = ArgType.Schema args,
                              ProcParams = [],
                              Params = [],
                              Return = zeroField\<lparr>NilType := nilType, Field.Type := typ\<rparr>,
                              Proc.Proc = p\<rparr>
               in (case LoadProcParams X ldr args procTpl of
                     Inl err \<Rightarrow> Inl err
                   | Inr procTpl1 \<Rightarrow> Inr (AList.update (ProcName p) procTpl1 procMap)))))"

definition LoadProcs :: "Externals \<Rightarrow> TypeLoader \<Rightarrow> ArgType \<Rightarrow> error + (string \<times> Proc) list" where
  "LoadProcs X ldr args =
     (case ProcList ldr of
        None \<Rightarrow> Inr []
      | Some procListFn \<Rightarrow>
          (case procListFn (DB args) (ArgType.Schema args) of
             Inl err \<Rightarrow> Inl err
           | Inr procList \<Rightarrow>
               (case forE (LoadProcs_step X ldr args) [] procList of
                  Inl err \<Rightarrow> Inl err
                | Inr procMap \<Rightarrow>
                    (case forE (\<lambda>u p.
                                  case ExecuteTemplate args ProcTemplate (''sp_'' @ Proc.Name p) []
                                         (ProcObj p) of
                                    Some err \<Rightarrow> Inl err
                                  | None \<Rightarrow> Inr u)
                              () (map snd procMap) of
                       Inl err \<Rightarrow> Inl err
                     | Inr u \<Rightarrow> Inr procMap))))"

section \<open>The schema\<close>

text \<open>
  \<open>LoadSchema\<close>.  The Go function returns only the error; the model returns, on
  success, the merged map that it passed to \<open>LoadForeignKeys\<close> and \<open>LoadIndexes\<close>.
  The last argument is the number of calls of \<open>rand.Int\<close> made before.
\<close>

definition LoadSchema ::
  "Externals \<Rightarrow> TypeLoader \<Rightarrow> ArgType \<Rightarrow> nat \<Rightarrow> (string \<times> Type) list result" where
  "LoadSchema X ldr args n =
     (case LoadEnums X ldr args of
        Err err \<Rightarrow> Err err
      | Panic \<Rightarrow> Panic
      | Ok (args1, enumMap) \<Rightarrow>
     (case LoadProcs X ldr args1 of
        Inl err \<Rightarrow> Err err
      | Inr procMap \<Rightarrow>
     (case LoadRelkind X ldr args1 RelType.Table of
        Err err \<Rightarrow> Err err
      | Panic \<Rightarrow> Panic
      | Ok tableMap \<Rightarrow>
     (case LoadRelkind X ldr args1 View of
        Err err \<Rightarrow> Err err
      | Panic \<Rightarrow> Panic
      | Ok viewMap \<Rightarrow>
     (let tableMap1 = mergeViews tableMap viewMap
      in (case LoadForeignKeys X ldr args1 tableMap1 n of
            Err err \<Rightarrow> Err err
          | Panic \<Rightarrow> Panic
          | Ok fks \<Rightarrow>
         (case LoadIndexes ldr args1 tableMap1 of
            Inl err \<Rightarrow> Err err
          | Inr ixMap \<Rightarrow> Ok tableMap1)))))))"

section \<open>The PostgreSQL type mapping\<close>

text \<open>
  The three tables of package \<open>postgrestypes\<close>.  Each returns the type, the zero
  value, the \<open>asSlice\<close> flag as the function leaves it (the Go code writes it
  through a pointer) and \<open>ok\<close>.  \<open>dquote\<close> is the double quote.
\<close>

definition dquote :: string where
  "dquote = [CHR 0x22]"

definition postgresNameToGoName ::
  "string \<Rightarrow> bool \<Rightarrow> bool \<Rightarrow> string \<Rightarrow> string \<Rightarrow> string \<times> string \<times> bool \<times> bool" where
  "postgresNameToGoName dt nullable asSlice int32Type uint32Type =
     (if dt = ''boolean'' then
        (if nullable then (''sql.NullBool'', ''sql.NullBool{}'', asSlice, True)
         else (''bool'', ''false'', asSlice, True))
      else if dt \<in> set [''character'', ''character varying'', ''text'', ''money'', ''inet''] then
        (if nullable then (''sql.NullString'', ''sql.NullString{}'', asSlice, True)
         else (''string'', dquote @ dquote, asSlice, True))
      else if dt = ''smallint'' then
        (if nullable then (''sql.NullInt64'', ''sql.NullInt64{}'', asSlice, True)
         else (''int16'', ''0'', asSlice, True))
      else if dt = ''integer'' then
        (if nullable then (''sql.NullInt64'', ''sql.NullInt64{}'', asSlice, True)
         else (int32Type, ''0'', asSlice, True))
      else if dt = ''bigint'' then
        (if nullable then (''sql.NullInt64'', ''sql.NullInt64{}'', asSlice, True)
         else (''int64'', ''0'', asSlice, True))
      else if dt = ''smallserial'' then
        (if nullable then (''sql.NullInt64'', ''sql.NullInt64{}'', asSlice, True)
         else (''uint16'', ''0'', asSlice, True))
      else if dt = ''serial'' then
        (if nullable then (''sql.NullInt64'', ''sql.NullInt64{}'', asSlice, True)
         else (uint32Type, ''0'', asSlice, True))
      else if dt = ''bigserial'' then
        (if nullable then (''sql.NullInt64'', ''sql.NullInt64{}'', asSlice, True)
         else (''uint64'', ''0'', asSlice, True))
      else if dt = ''real'' then
        (if nullable then (''sql.NullFloat64'', ''sql.NullFloat64{}'', asSlice, True)
         else (''float32'', ''0.0'', asSlice, True))
      else if dt \<in> set [''numeric'', ''double precision''] then
        (if nullable then (''sql.NullFloat64'', ''sql.NullFloat64{}'', asSlice, True)
         else (''float64'', ''0.0'', asSlice, True))
      else if dt = ''bytea'' then (''byte'', [], True, True)
      else if dt \<in> set [''date'', ''timestamp with time zone'', ''time with time zone'',
                         ''time without time zone'', ''timestamp without time zone''] then
        (if nullable then (''pq.NullTime'', ''pq.NullTime{}'', asSlice, True)
         else (''time.Time'', ''time.Time{}'', asSlice, True))
      else if dt = ''interval'' then (''*time.Duration'', [], asSlice, True)
      else if dt \<in> set [dquote @ ''char'' @ dquote, ''bit''] then
        (''uint8'', ''uint8(0)'', asSlice, True)
      else if dt \<in> set [dquote @ ''any'' @ dquote, ''bit varying''] then
        (''byte'', [], True, True)
      else if dt = ''hstore'' then (''hstore.Hstore'', [], asSlice, True)
      else if dt = ''uuid'' then (''uuid.UUID'', ''uuid.New()'', asSlice, True)
      else ([], [], asSlice, False))"

definition postgresNameToInternalPgtypeName ::
  "string \<Rightarrow> bool \<Rightarrow> string \<Rightarrow> string \<Rightarrow> string \<times> string \<times> bool \<times> bool" where
  "postgresNameToInternalPgtypeName dt asSlice int32Type uint32Type =
     (if dt = ''boolean'' then (''bool'', ''false'', asSlice, True)
      else if dt = ''inet'' then (''*net.IPNet'', ''nil'', asSlice, True)
      else if dt = ''character varying'' then (''string'', dquote @ dquote, asSlice, True)
      else if dt \<in> set [''money'', ''text'', ''character''] then
        (''string'', dquote @ dquote, asSlice, True)
      else if dt \<in> set [''smallint'', ''smallserial''] then (''int16'', ''0'', asSlice, True)
      else if dt = ''integer'' then (int32Type, ''0'', asSlice, True)
      else if dt = ''serial'' then (uint32Type, ''0'', asSlice, True)
      else if dt \<in> set [''bigint'', ''bigserial''] then (''int64'', ''0'', asSlice, True)
      else if dt = ''real'' then (''float32'', ''0'', asSlice, True)
      else if dt = ''double precision'' then (''float64'', ''0'', asSlice, True)
      else if dt = ''numeric'' then (''float64'', ''0.0'', asSlice, True)
      else if dt = ''bytea'' then (''[]byte'', ''[]'', asSlice, True)
      else if dt \<in> set [''date'', ''timestamp without time zone'', ''timestamp with time zone''] then
        (''time.Time'', ''time.Time{}'', asSlice, True)
      else if dt \<in> set [''time with time zone'', ''time without time zone''] then
        (''int64'', ''0'', asSlice, True)
      else if dt = ''interval'' then (''*time.Duration'', ''nil'', asSlice, True)
      else if dt = dquote @ ''char'' @ dquote then (''int8'', ''0'', asSlice, True)
      else if dt = ''bit'' then (''uint8'', ''uint8(0)'', asSlice, True)
      else if dt \<in> set [''bit varying'', dquote @ ''any'' @ dquote] then
        (''byte'', ''nil'', True, True)
      else if dt = ''hstore'' then (''hstore.Hstore'', ''nil'', asSlice, True)
      else if dt = ''uuid'' then (''[16]byte'', ''uuid.New()'', asSlice, True)
      else ([], [], asSlice, False))"

definition pgtypeName :: "string \<Rightarrow> string option" where
  "pgtypeName dt =
     (if dt = ''boolean'' then Some ''pgtype.Bool''
      else if dt = ''inet'' then Some ''pgtype.Inet''
      else if dt = ''character varying'' then Some ''pgtype.Varchar''
      else if dt \<in> set [''money'', ''text'', ''character''] then Some ''pgtype.Text''
      else if dt \<in> set [''smallint'', ''smallserial''] then Some ''pgtype.Int2''
      else if dt \<in> set [''integer'', ''serial''] then Some ''pgtype.Int4''
      else if dt \<in> set [''bigint'', ''bigserial''] then Some ''pgtype.Int8''
      else if dt = ''real'' then Some ''pgtype.Float4''
      else if dt = ''double precision'' then Some ''pgtype.Float8''
      else if dt = ''numeric'' then Some ''pgtype.Numeric''
      else if dt = ''bytea'' then Some ''pgtype.Bytea''
      else if dt = ''date'' then Some ''pgtype.Date''
      else if dt = ''timestamp without time zone'' then Some ''pgtype.Timestamp''
      else if dt = ''timestamp with time zone'' then Some ''pgtype.Timestamptz''
      else if dt \<in> set [''time with time zone'', ''time without time zone''] then
        Some ''pgtype.Time''
      else if dt = ''interval'' then Some ''pgtype.Interval''
      else if dt = dquote @ ''char'' @ dquote then Some ''pgtype.QChar''
      else if dt = ''bit'' then Some ''pgtype.Bit''
      else if dt \<in> set [''bit varying'', dquote @ ''any'' @ dquote] then Some ''pgtype.Varbit''
      else if dt = ''hstore'' then Some ''pgtype.Hstore''
      else if dt = ''uuid'' then Some ''pgtype.UUID''
      else None)"

definition postgresNameToPgtypeName :: "string \<Rightarrow> bool \<Rightarrow> string \<times> string \<times> bool \<times> bool" where
  "postgresNameToPgtypeName dt asSlice =
     (case pgtypeName dt of
        None \<Rightarrow> ([], [], asSlice, False)
      | Some typ \<Rightarrow> (typ, typ @ ''{Status: pgtype.Null}'', asSlice, True))"

text \<open>
  The method \<open>PostgresNameToPgtypeName\<close> of the mode.  The mode is one of the
  four declared constants, so the panicking default of the switch is not reached.
\<close>

definition PostgresNameToPgtypeName ::
  "PgtypeMode \<Rightarrow> string \<Rightarrow> bool \<Rightarrow> bool \<Rightarrow> string \<Rightarrow> string \<Rightarrow> string \<times> string \<times> bool \<times> bool" where
  "PostgresNameToPgtypeName p dt nullable asSlice int32Type uint32Type =
     (case p of
        PgtypeModeStd \<Rightarrow> postgresNameToGoName dt nullable asSlice int32Type uint32Type
      | PgtypeModeFull \<Rightarrow> postgresNameToPgtypeName dt asSlice
      | PgtypeModePointer \<Rightarrow>
          (case postgresNameToInternalPgtypeName dt asSlice int32Type uint32Type of
             (typ, nilVal, asSlice1, ok) \<Rightarrow>
               if nullable then (''*'' @ typ, ''nil'', asSlice1, ok)
               else (typ, nilVal, asSlice1, ok))
      | PgtypeModePgtype \<Rightarrow>
          (if nullable then postgresNameToPgtypeName dt asSlice
           else postgresNameToInternalPgtypeName dt asSlice int32Type uint32Type))"

text \<open>
  \<open>PgParseType\<close> returns the precision, the zero value and the type, in this
  order.
\<close>

function PgParseType :: "Externals \<Rightarrow> ArgType \<Rightarrow> string \<Rightarrow> bool \<Rightarrow> int \<times> string \<times> string" where
  "PgParseType X args dt nullable =
     (if HasPrefix dt ''SETOF '' then
        (case PgParseType X args (drop (length ''SETOF '') dt) False of
           (l, nilVal, t) \<Rightarrow> (0, ''nil'', ''[]'' @ t))
      else
        (let asSlice0 = HasSuffix dt ''[]'';
             dt1 = (if asSlice0 then take (length dt - 2) dt else dt)
         in (case ParsePrecision args dt1 of
               (dt2, precision, scale) \<Rightarrow>
                 (case PostgresNameToPgtypeName (PgtypeMode args) dt2 nullable asSlice0
                         (Int32Type args) (Uint32Type args) of
                    (typ0, nilVal0, asSlice, ok) \<Rightarrow>
                      (let typ = (if ok then typ0
                                  else if HasPrefix dt2 (ArgType.Schema args @ ''.'')
                                  then SnakeToCamelIdentifier X
                                         (drop (length (ArgType.Schema args) + 1) dt2)
                                  else SnakeToCamelIdentifier X dt2);
                           nilVal = (if ok then nilVal0
                                     else if HasPrefix dt2 (ArgType.Schema args @ ''.'')
                                     then typ @ ''(0)''
                                     else typ @ ''{}'')
                       in if typ = ''string'' \<and> asSlice
                          then (precision, ''StringSlice{}'', ''StringSlice'')
                          else if asSlice then (precision, ''nil'', ''[]'' @ typ)
                          else (precision, nilVal, typ))))))"
  by pat_completeness auto
termination
proof (relation "measure (\<lambda>(X, args, dt, nullable). length dt)")
  show "wf (measure (\<lambda>(X :: Externals, args :: ArgType, dt :: string, nullable :: bool). length dt))"
    by simp
next
  fix X :: Externals and args :: ArgType and dt :: string and nullable :: bool
  assume "HasPrefix dt ''SETOF ''"
  then have "dt \<noteq> []"
    by (auto simp: HasPrefix_def)
  then show "((X, args, drop (length ''SETOF '') dt, False), X, args, dt, nullable)
               \<in> measure (\<lambda>(X, args, dt, nullable). length dt)"
    by (cases dt) simp_all
qed

section \<open>The PostgreSQL loaders\<close>

text \<open>
  The queries of package \<open>models\<close> that the PostgreSQL loaders call; generated
  code, not among the sources.
\<close>

record Models =
  models_PgTables :: "XODB \<Rightarrow> string \<Rightarrow> string \<Rightarrow> error + Table list"
  PgSequences :: "XODB \<Rightarrow> string \<Rightarrow> error + Sequence list"
  CrAutoIncrements :: "XODB \<Rightarrow> string \<Rightarrow> error + CrAutoincrement list"
  PgTableColumns :: "XODB \<Rightarrow> string \<Rightarrow> string \<Rightarrow> bool \<Rightarrow> error + Column list"

text \<open>The two inner loops of \<open>PgTables\<close> over the sequences and auto-increments.\<close>

definition manualPk :: "Sequence list \<Rightarrow> CrAutoincrement list \<Rightarrow> Table \<Rightarrow> bool" where
  "manualPk sequences crAutoIncrements row =
     (let manualPk0 = True;
          manualPk1 = foldl (\<lambda>b sequence.
                               if Sequence.TableName sequence = Table.TableName row then False else b)
                        manualPk0 sequences
      in foldl (\<lambda>b crAutoInc.
                  if CrAutoincrement.TableName crAutoInc = Table.TableName row then False else b)
           manualPk1 crAutoIncrements)"

definition PgTables :: "Models \<Rightarrow> XODB \<Rightarrow> string \<Rightarrow> string \<Rightarrow> error + Table list" where
  "PgTables M db schema relkind =
     (case models_PgTables M db schema relkind of
        Inl err \<Rightarrow> Inl err
      | Inr rows \<Rightarrow>
          (let sequences = (case PgSequences M db schema of Inl err \<Rightarrow> [] | Inr l \<Rightarrow> l);
               crAutoIncrements =
                 (case CrAutoIncrements M db schema of Inl err \<Rightarrow> [] | Inr l \<Rightarrow> l)
           in Inr (foldl (\<lambda>tables row.
                            tables @ [\<lparr>Table.TableName = Table.TableName row,
                                       Table.Type = Table.Type row,
                                       ManualPk = manualPk sequences crAutoIncrements row\<rparr>])
                     [] rows)))"

text \<open>
  \<open>PgQueryColumns\<close> returns the database handle as it leaves it, and its result.
  The error of \<open>models.PgTableColumns\<close> is overwritten by the result of the
  \<open>DROP VIEW\<close> statement before it is read.
\<close>

definition nspq :: string where
  "nspq = ''SELECT n.nspname '' @ ''FROM pg_class c ''
          @ ''JOIN pg_namespace n ON n.oid = c.relnamespace '' @ ''WHERE c.relname = $1''"

definition jsonColumn :: "Column \<Rightarrow> Column" where
  "jsonColumn col =
     (if DataType col = ''json'' \<or> DataType col = ''jsonb''
      then col\<lparr>DataType := Column.ColumnName col\<rparr> else col)"

definition PgQueryColumns ::
  "Externals \<Rightarrow> Models \<Rightarrow> ArgType \<Rightarrow> string list \<Rightarrow> XODB \<times> (error + Column list)" where
  "PgQueryColumns X M args inspect =
     (let xoid = ''_xo_'' @ GenRandomID X;
          viewq = ''CREATE VIEW '' @ xoid @ '' AS ('' @ Join inspect [CHR 0x0A] @ '')''
      in (case Exec (DB args) viewq of
            (db1, Some err) \<Rightarrow> (db1, Inl err)
          | (db1, None) \<Rightarrow>
              (case QueryRowScan db1 nspq xoid of
                 Inl err \<Rightarrow> (db1, Inl err)
               | Inr schema \<Rightarrow>
                   (let result = (case PgTableColumns M db1 schema xoid False of
                                    Inl err \<Rightarrow> []
                                  | Inr cols \<Rightarrow> map jsonColumn cols);
                        dropq = ''DROP VIEW '' @ xoid
                    in (case Exec db1 dropq of
                          (db2, Some err) \<Rightarrow> (db2, Inl err)
                        | (db2, None) \<Rightarrow> (db2, Inr result))))))"

declare PgParseType.simps [simp del]

section \<open>Package snaker: camel case to snake case\<close>

text \<open>
  \<open>CamelToSnake\<close> works on the runes of its argument and measures what it appends in
  bytes.  A Go string is modelled by the list of its runes (code points), as
  \<open>[]rune(name)\<close> returns it; \<open>len\<close> is its length in bytes, the sum of the lengths
  of the UTF-8 encodings of its runes.  The tables of package \<open>unicode\<close> are the
  fields of a record.
\<close>

type_synonym rune = nat

record Unicode =
  IsUpper :: "rune \<Rightarrow> bool"
  IsLetter :: "rune \<Rightarrow> bool"
  ToLowerRune :: "rune \<Rightarrow> rune"

definition RuneLen :: "rune \<Rightarrow> nat" where
  "RuneLen r =
     (if r < 0x80 then 1 else if r < 0x800 then 2 else if r < 0x10000 then 3
      else if r \<le> 0x10FFFF then 4 else 3)"

definition len :: "rune list \<Rightarrow> nat" where
  "len s = sum_list (map RuneLen s)"

definition strings_ToLower :: "Unicode \<Rightarrow> rune list \<Rightarrow> rune list" where
  "strings_ToLower U s = map (ToLowerRune U) s"

record Initialisms =
  ini_m :: "rune list \<Rightarrow> bool"
  ini_max :: nat

text \<open>\<open>Add\<close>; the error message is given without the quoted initialism.\<close>

fun Add :: "Initialisms \<Rightarrow> rune list list \<Rightarrow> error + Initialisms" where
  "Add ini [] = Inr ini"
| "Add ini (s # initialisms) =
     (if len s < 2 then Inl (Error ''invalid initialism'')
      else Add (ini\<lparr>ini_m := (ini_m ini)(s := True), ini_max := max (ini_max ini) (len s)\<rparr>)
             initialisms)"

definition New :: "rune list list \<Rightarrow> error + Initialisms" where
  "New initialisms = Add \<lparr>ini_m = (\<lambda>s. False), ini_max = 0\<rparr> initialisms"

text \<open>The last loop of \<open>Peek\<close>, from \<open>i\<close> down to 2.\<close>

fun Peek_search :: "Initialisms \<Rightarrow> rune list \<Rightarrow> nat \<Rightarrow> rune list" where
  "Peek_search ini z 0 = []"
| "Peek_search ini z (Suc j) =
     (if Suc j < 2 then []
      else if ini_m ini (take (Suc j) z) then take (Suc j) z
      else Peek_search ini z j)"

definition Peek :: "Unicode \<Rightarrow> Initialisms \<Rightarrow> rune list \<Rightarrow> rune list" where
  "Peek U ini r =
     (if length r < 2 then []
      else
        (let l = min (length r) (ini_max ini);
             z = takeWhile (IsUpper U) (take l r)
         in if length z < 2 then []
            else Peek_search ini z (min (ini_max ini) (length z))))"

text \<open>
  The rune or initialism that one iteration of \<open>CamelToSnake\<close> appends, and the
  loop.  The second argument of the loop is \<open>r[i:]\<close>; the index advances by the
  length of \<open>next\<close> in bytes.  The state is \<open>s\<close>, \<open>lastWasUpper\<close>, \<open>lastWasLetter\<close>
  and \<open>lastWasIsm\<close>.
\<close>

definition nextOf :: "Unicode \<Rightarrow> Initialisms \<Rightarrow> bool \<Rightarrow> bool \<Rightarrow> rune \<Rightarrow> rune list \<Rightarrow> rune list" where
  "nextOf U ini lastWasUpper lastWasIsm c rs =
     (let ism = Peek U ini (c # rs)
      in if ism \<noteq> [] \<and> (\<not> lastWasUpper \<or> lastWasIsm) then ism else [c])"

function CamelToSnake_loop ::
  "Unicode \<Rightarrow> Initialisms \<Rightarrow> rune list \<Rightarrow> rune list \<times> bool \<times> bool \<times> bool \<Rightarrow> rune list" where
  "CamelToSnake_loop U ini [] st = fst st"
| "CamelToSnake_loop U ini (c # rs) st =
     (case st of (s, lastWasUpper, lastWasLetter, lastWasIsm) \<Rightarrow>
        (let isUpper = IsUpper U c;
             isLetter = IsLetter U c;
             s1 = (if (lastWasLetter \<and> isUpper) \<or> (lastWasIsm \<and> isLetter)
                   then s @ [95] else s);
             next = nextOf U ini lastWasUpper lastWasIsm c rs
         in CamelToSnake_loop U ini (drop (len next) (c # rs))
              (s1 @ next, isUpper, isLetter, 1 < len next)))"
  by pat_completeness auto
termination
proof (relation "measure (\<lambda>(U, ini, r, st). length r)")
  show "wf (measure (\<lambda>(U :: Unicode, ini :: Initialisms, r :: rune list,
                       st :: rune list \<times> bool \<times> bool \<times> bool). length r))"
    by simp
next
  fix U :: Unicode and ini :: Initialisms and c :: rune and rs :: "rune list"
    and st :: "rune list \<times> bool \<times> bool \<times> bool" and x :: "rune list" and y :: "bool \<times> bool \<times> bool"
    and xa :: bool and ya :: "bool \<times> bool" and xb :: bool and yb :: bool
    and xc :: bool and xd :: bool and xe :: "rune list" and xf :: "rune list"
  assume "xf = nextOf U ini xa yb c rs"
  then have "xf \<noteq> []"
    by (auto simp: nextOf_def Let_def)
  then have "0 < len xf"
    by (cases xf) (auto simp: len_def RuneLen_def)
  then show "((U, ini, drop (len xf) (c # rs), xe @ xf, xc, xd, 1 < len xf), U, ini, c # rs, st)
               \<in> measure (\<lambda>(U, ini, r, st). length r)"
    by simp
qed

definition CamelToSnake :: "Unicode \<Rightarrow> Initialisms \<Rightarrow> rune list \<Rightarrow> rune list" where
  "CamelToSnake U ini name =
     (if name = [] then []
      else strings_ToLower U (CamelToSnake_loop U ini name ([], False, False, False)))"

text \<open>
  The package-level set of initialisms, \<open>New(CommonInitialisms()...)\<close>.  \<open>New\<close>
  does not fail on this list (lemma \<open>New_CommonInitialisms\<close> below).
\<close>

definition runes :: "string \<Rightarrow> rune list" where
  "runes s = map of_char s"

definition CommonInitialisms :: "rune list list" where
  "CommonInitialisms = map runes
     [''ACL'', ''API'', ''ASCII'', ''CPU'', ''CSS'', ''DNS'', ''EOF'', ''GUID'', ''HTML'', ''HTTPS'',
      ''HTTP'', ''ID'', ''IP'', ''JSON'', ''LHS'', ''QPS'', ''RAM'', ''RHS'', ''RPC'', ''SLA'',
      ''SMTP'', ''SQL'', ''SSH'', ''TCP'', ''TLS'', ''TTL'', ''UDP'', ''UID'', ''UI'', ''URI'',
      ''URL'', ''UTC'', ''UTF8'', ''UUID'', ''VM'', ''XML'', ''XMPP'', ''XSRF'', ''XSS'', ''YAML'']"

definition DefaultInitialisms :: Initialisms where
  "DefaultInitialisms =
     (case New CommonInitialisms of
        Inr ini \<Rightarrow> ini
      | Inl err \<Rightarrow> \<lparr>ini_m = (\<lambda>s. False), ini_max = 0\<rparr>)"

section \<open>A sample database\<close>

text \<open>
  Concrete values on which the theorems below are instantiated: an adapter for
  a schema with the tables \<open>users\<close>, \<open>orders\<close>, \<open>order_items\<close> and \<open>report\<close> and the
  view \<open>report\<close>, and arguments that ignore the column \<open>updated_at\<close>.  The sample
  functions for the standard library are exact on ASCII text.
\<close>

definition asciiLower :: "string \<Rightarrow> string" where
  "asciiLower s =
     map (\<lambda>c. case map_of (zip ''ABCDEFGHIJKLMNOPQRSTUVWXYZ'' ''abcdefghijklmnopqrstuvwxyz'') c of
                 Some l \<Rightarrow> l
               | None \<Rightarrow> c) s"

definition asciiUnicode :: Unicode where
  "asciiUnicode =
     \<lparr>IsUpper = (\<lambda>r. 65 \<le> r \<and> r \<le> 90),
      IsLetter = (\<lambda>r. (65 \<le> r \<and> r \<le> 90) \<or> (97 \<le> r \<and> r \<le> 122)),
      ToLowerRune = (\<lambda>r. if 65 \<le> r \<and> r \<le> 90 then r + 32 else r)\<rparr>"

definition exParse :: "string \<Rightarrow> error + string" where
  "exParse dsn =
     (if HasPrefix dsn ''cockroachdb://'' then Inr ''cockroachdb''
      else if HasPrefix dsn ''postgres://'' then Inr ''postgres''
      else Inl (Error ''invalid database scheme''))"

definition exX :: Externals where
  "exX =
     \<lparr>ToLower = asciiLower,
      TrimSpace = (\<lambda>s. s),
      SnakeToCamelIdentifier = (\<lambda>s. s),
      SingularizeIdentifier = (\<lambda>s. s),
      dburl_Parse = exParse,
      rand_Int = (\<lambda>n. 7 * n + 3),
      GenRandomID = ''abc'',
      RelType_String = (\<lambda>rt. case rt of RelType.Table \<Rightarrow> ''TABLE'' | View \<Rightarrow> ''VIEW'')\<rparr>"

definition exDB :: XODB where
  "exDB = \<lparr>Executed = [], ExecResult = (\<lambda>q. None), QueryRowScan = (\<lambda>q a. Inr ''public'')\<rparr>"

definition exArgs :: ArgType where
  "exArgs =
     \<lparr>DB = exDB,
      ArgType.Schema = ''public'',
      DSN = ''postgres://localhost/shop'',
      LoaderType = ''postgres'',
      IgnoreTables = [],
      IgnoreFields = [''Updated_At''],
      ArgType.Sqlx = False,
      UseReversedEnumConstNames = False,
      KnownTypeMap = (\<lambda>s. False),
      PgtypeMode = PgtypeModeStd,
      Int32Type = ''int'',
      Uint32Type = ''uint'',
      ParsePrecision = (\<lambda>dt. (dt, 0, 0)),
      ExecuteTemplate = (\<lambda>tt name sub obj. None),
      BuildIndexFuncName = (\<lambda>ix. Type.Name (Index.Type ix) @ ''By''
                                   @ concat (map Field.Name (Index.Fields ix))),
      ArgType.ForeignKeyName = (\<lambda>m fk. Type.Name (ForeignKey.Type fk))\<rparr>"

definition mkColumn :: "string \<Rightarrow> string \<Rightarrow> bool \<Rightarrow> bool \<Rightarrow> Column" where
  "mkColumn name dt notNull pk =
     \<lparr>Column.ColumnName = name, DataType = dt, NotNull = notNull, IsPrimaryKey = pk\<rparr>"

definition mkTable :: "string \<Rightarrow> string \<Rightarrow> Table" where
  "mkTable name typ = \<lparr>Table.TableName = name, Table.Type = typ, ManualPk = False\<rparr>"

definition exTableList :: "XODB \<Rightarrow> string \<Rightarrow> string \<Rightarrow> error + Table list" where
  "exTableList db schema relkind =
     (if relkind = ''TABLE''
      then Inr [mkTable ''users'' ''TABLE'', mkTable ''orders'' ''TABLE'',
                mkTable ''order_items'' ''TABLE'', mkTable ''report'' ''TABLE'']
      else if relkind = ''VIEW'' then Inr [mkTable ''report'' ''VIEW'']
      else Inl (Error ''unknown relkind''))"

definition exColumnList :: "XODB \<Rightarrow> string \<Rightarrow> string \<Rightarrow> error + Column list" where
  "exColumnList db schema table =
     (if table = ''users''
      then Inr [mkColumn ''id'' ''integer'' True True,
                mkColumn ''email'' ''text'' True False,
                mkColumn ''updated_at'' ''timestamp with time zone'' False False]
      else if table = ''orders''
      then Inr [mkColumn ''id'' ''integer'' True True,
                mkColumn ''user_id'' ''integer'' True False,
                mkColumn ''stamp'' ''timestamp with time zone'' False False]
      else if table = ''order_items''
      then Inr [mkColumn ''order_id'' ''integer'' True True,
                mkColumn ''item_no'' ''integer'' True True,
                mkColumn ''qty'' ''integer'' True False]
      else if table = ''report''
      then Inr [mkColumn ''total'' ''numeric'' False False]
      else Inl (Error ''no such table''))"

definition mkForeignKey :: "string \<Rightarrow> string \<Rightarrow> string \<Rightarrow> string \<Rightarrow> models_ForeignKey" where
  "mkForeignKey name col refTable refCol =
     \<lparr>models_ForeignKey.ForeignKeyName = name, models_ForeignKey.ColumnName = col,
      RefTableName = refTable, RefColumnName = refCol\<rparr>"

definition exForeignKeyList :: "XODB \<Rightarrow> string \<Rightarrow> string \<Rightarrow> error + models_ForeignKey list" where
  "exForeignKeyList db schema table =
     (if table = ''orders''
      then Inr [mkForeignKey ''orders_user_id_fkey'' ''user_id'' ''users'' ''id'']
      else if table = ''order_items''
      then Inr [mkForeignKey [] ''order_id'' ''orders'' []]
      else Inr [])"

definition exIndexList :: "XODB \<Rightarrow> string \<Rightarrow> string \<Rightarrow> error + models_Index list" where
  "exIndexList db schema table =
     (if table = ''users''
      then Inr [\<lparr>IndexName = ''users_updated_idx'', IsUnique = False, IsPrimary = False,
                 Origin = ''c''\<rparr>]
      else Inr [])"

definition exIndexColumnList ::
  "XODB \<Rightarrow> string \<Rightarrow> string \<Rightarrow> string \<Rightarrow> error + IndexColumn list" where
  "exIndexColumnList db schema table index =
     (if index = ''users_updated_idx''
      then Inr [\<lparr>Cid = 3, IndexColumn.ColumnName = ''updated_at''\<rparr>]
      else Inr [])"

definition exLoader :: TypeLoader where
  "exLoader =
     \<lparr>ProcessRelkind = None,
      ParseType = PgParseType exX,
      EnumList = None,
      EnumValueList = (\<lambda>db schema enum. Inr []),
      ProcList = None,
      ProcParamList = (\<lambda>db schema proc. Inr []),
      TableList = exTableList,
      ColumnList = exColumnList,
      ForeignKeyList = exForeignKeyList,
      IndexList = exIndexList,
      IndexColumnList = exIndexColumnList\<rparr>"

definition exField :: "Column \<Rightarrow> Field" where
  "exField c = columnField exX exLoader exArgs c"

text \<open>The relation that \<open>LoadColumns\<close> builds for the table \<open>users\<close>.\<close>

definition exUsers :: Type where
  "exUsers =
     \<lparr>Type.Name = ''users'',
      Type.Schema = ''public'',
      RelType = RelType.Table,
      PrimaryKey = Some (exField (mkColumn ''id'' ''integer'' True True)),
      PrimaryKeyFields = [exField (mkColumn ''id'' ''integer'' True True)],
      Type.Fields = [exField (mkColumn ''id'' ''integer'' True True),
                     exField (mkColumn ''email'' ''text'' True False)],
      Type.Table = mkTable ''users'' ''TABLE'',
      Comment = [],
      Type.Sqlx = False\<rparr>"

text \<open>
  The relation \<open>users\<close> with an empty \<open>PrimaryKey\<close> and the field with the
  primary-key flag in second place.
\<close>

definition exUsersNoSlot :: Type where
  "exUsersNoSlot =
     exUsers\<lparr>PrimaryKey := None,
              Type.Fields := [exField (mkColumn ''email'' ''text'' True False),
                              exField (mkColumn ''id'' ''integer'' True True)]\<rparr>"

text \<open>The relation that \<open>LoadColumns\<close> builds for the table \<open>orders\<close>.\<close>

definition exOrders :: Type where
  "exOrders =
     \<lparr>Type.Name = ''orders'',
      Type.Schema = ''public'',
      RelType = RelType.Table,
      PrimaryKey = Some (exField (mkColumn ''id'' ''integer'' True True)),
      PrimaryKeyFields = [exField (mkColumn ''id'' ''integer'' True True)],
      Type.Fields = [exField (mkColumn ''id'' ''integer'' True True),
                     exField (mkColumn ''user_id'' ''integer'' True False),
                     exField (mkColumn ''stamp'' ''timestamp with time zone'' False False)],
      Type.Table = mkTable ''orders'' ''TABLE'',
      Comment = [],
      Type.Sqlx = False\<rparr>"

text \<open>The relations for \<open>order_items\<close> and for the table and the view \<open>report\<close>.\<close>

definition exOrderItems :: Type where
  "exOrderItems =
     \<lparr>Type.Name = ''order_items'',
      Type.Schema = ''public'',
      RelType = RelType.Table,
      PrimaryKey = Some (exField (mkColumn ''item_no'' ''integer'' True True)),
      PrimaryKeyFields = [exField (mkColumn ''order_id'' ''integer'' True True),
                          exField (mkColumn ''item_no'' ''integer'' True True)],
      Type.Fields = [exField (mkColumn ''order_id'' ''integer'' True True),
                     exField (mkColumn ''item_no'' ''integer'' True True),
                     exField (mkColumn ''qty'' ''integer'' True False)],
      Type.Table = mkTable ''order_items'' ''TABLE'',
      Comment = [],
      Type.Sqlx = False\<rparr>"

definition exReport :: "RelType \<Rightarrow> string \<Rightarrow> Type" where
  "exReport relType kind =
     \<lparr>Type.Name = ''report'',
      Type.Schema = ''public'',
      RelType = relType,
      PrimaryKey = None,
      PrimaryKeyFields = [],
      Type.Fields = [exField (mkColumn ''total'' ''numeric'' False False)],
      Type.Table = mkTable ''report'' kind,
      Comment = [],
      Type.Sqlx = False\<rparr>"

definition exTables :: "(string \<times> Type) list" where
  "exTables = [(''users'', exUsers), (''orders'', exOrders), (''order_items'', exOrderItems),
               (''report'', exReport RelType.Table ''TABLE'')]"

definition exViews :: "(string \<times> Type) list" where
  "exViews = [(''report'', exReport View ''VIEW'')]"

definition exMerged :: "(string \<times> Type) list" where
  "exMerged = [(''users'', exUsers), (''orders'', exOrders), (''order_items'', exOrderItems),
               (''report'', exReport View ''VIEW'')]"

definition exTableMap :: "(string \<times> Type) list" where
  "exTableMap = [(''users'', exUsers), (''orders'', exOrders)]"

text \<open>The index template of \<open>LoadTableIndexes\<close> for the index on \<open>updated_at\<close>.\<close>

definition exUpdatedIdx :: Index where
  "exUpdatedIdx =
     \<lparr>FuncName = [],
      Index.Schema = ''public'',
      Index.Type = exUsers,
      Index.Fields = [],
      Index.Index = \<lparr>IndexName = ''users_updated_idx'', IsUnique = False, IsPrimary = False,
                      Origin = ''c''\<rparr>\<rparr>"

text \<open>
  A catalog in which the table list can be read, while the queries for the
  sequences and for the auto-increment columns fail.
\<close>

definition exModels :: Models where
  "exModels =
     \<lparr>models_PgTables = (\<lambda>db schema relkind. Inr [mkTable ''users'' ''r'', mkTable ''orders'' ''r'']),
      PgSequences = (\<lambda>db schema. Inl (Error ''permission denied for sequences'')),
      CrAutoIncrements = (\<lambda>db schema. Inl (Error ''relation does not exist'')),
      PgTableColumns = (\<lambda>db schema table oids. Inr [mkColumn ''n'' ''integer'' True False])\<rparr>"

text \<open>A database in which the schema of the new view cannot be read.\<close>

definition exNoSchemaDB :: XODB where
  "exNoSchemaDB =
     \<lparr>Executed = [], ExecResult = (\<lambda>q. None),
      QueryRowScan = (\<lambda>q a. Inl (Error ''sql: no rows in result set''))\<rparr>"

text \<open>A string of four runes: the euro sign U+20AC, then \<open>abc\<close>.\<close>

definition exName :: "rune list" where
  "exName = [0x20AC, 97, 98, 99]"

section \<open>Properties of the column loader\<close>




lemma Col_columnField: "Col (columnField X ldr args c) = c"
  by (simp add: columnField_def split: prod.splits)


lemma LoadColumns_loop_Fields:
  "Type.Fields (foldl (LoadColumns_step X ldr args) t cols) =
     Type.Fields t @ map (columnField X ldr args) (filter (\<lambda>c. \<not> ignoreColumn X args c) cols)"
  by (induction cols arbitrary: t) (auto simp: LoadColumns_step_def Let_def)

lemma LoadColumns_loop_PrimaryKeyFields:
  "PrimaryKeyFields (foldl (LoadColumns_step X ldr args) t cols) =
     PrimaryKeyFields t @ map (columnField X ldr args)
       (filter (\<lambda>c. \<not> ignoreColumn X args c \<and> IsPrimaryKey c) cols)"
  by (induction cols arbitrary: t) (auto simp: LoadColumns_step_def Let_def)

lemma LoadColumns_loop_PrimaryKey:
  "PrimaryKey (foldl (LoadColumns_step X ldr args) t cols) =
     (case filter (\<lambda>c. \<not> ignoreColumn X args c \<and> IsPrimaryKey c) cols of
        [] \<Rightarrow> PrimaryKey t
      | c # cs \<Rightarrow> Some (columnField X ldr args (last (c # cs))))"
  by (induction cols arbitrary: t) (auto simp: LoadColumns_step_def Let_def split: list.splits)

lemma LoadColumns_loop_rest:
  "Type.Table (foldl (LoadColumns_step X ldr args) t cols) = Type.Table t"
  "Type.Name (foldl (LoadColumns_step X ldr args) t cols) = Type.Name t"
  "RelType (foldl (LoadColumns_step X ldr args) t cols) = RelType t"
  by (induction cols arbitrary: t) (auto simp: LoadColumns_step_def Let_def)

text \<open>
  Claim C10.  When the column list of a relation can be read, \<open>LoadColumns\<close>
  returns the relation, its \<open>PrimaryKeyFields\<close> are exactly the fields of the
  columns that are not ignored and have the primary-key flag, in column order,
  and \<open>PrimaryKey\<close> is the last of them (none when there is no such column).
  It is also the primary key that \<open>LoadTableIndexes\<close> finds for the implicit
  index; \<open>GetTableForeignKeys\<close> reads the same field of the referenced relation.
\<close>

theorem LoadColumns_primary_key:
  assumes "ColumnList ldr (DB args) (ArgType.Schema args) (Table.TableName ti) = Inr cols"
  shows "\<exists>t. LoadColumns X ldr args (newTypeTpl X args relType ti) = Inr t
           \<and> PrimaryKeyFields t =
               map (columnField X ldr args)
                 (filter (\<lambda>c. \<not> ignoreColumn X args c \<and> IsPrimaryKey c) cols)
           \<and> PrimaryKeyFields t = filter (\<lambda>f. IsPrimaryKey (Col f)) (Type.Fields t)
           \<and> PrimaryKey t =
               (if PrimaryKeyFields t = [] then None else Some (last (PrimaryKeyFields t)))
           \<and> searchPrimaryKey t = PrimaryKey t"
proof -
  let ?init = "newTypeTpl X args relType ti"
  let ?res = "foldl (LoadColumns_step X ldr args) ?init cols"
  let ?pk = "filter (\<lambda>c. \<not> ignoreColumn X args c \<and> IsPrimaryKey c) cols"
  have run: "LoadColumns X ldr args ?init = Inr ?res"
    using assms by (simp add: LoadColumns_def newTypeTpl_def)
  have pkf: "PrimaryKeyFields ?res = map (columnField X ldr args) ?pk"
    by (simp add: LoadColumns_loop_PrimaryKeyFields newTypeTpl_def)
  have fs: "Type.Fields ?res =
              map (columnField X ldr args) (filter (\<lambda>c. \<not> ignoreColumn X args c) cols)"
    by (simp add: LoadColumns_loop_Fields newTypeTpl_def)
  have sub: "PrimaryKeyFields ?res = filter (\<lambda>f. IsPrimaryKey (Col f)) (Type.Fields ?res)"
    unfolding pkf fs by (simp add: filter_map o_def Col_columnField)
  have pk: "PrimaryKey ?res = (if ?pk = [] then None else Some (columnField X ldr args (last ?pk)))"
    by (simp add: LoadColumns_loop_PrimaryKey newTypeTpl_def split: list.splits)
  have lst: "PrimaryKey ?res =
               (if PrimaryKeyFields ?res = [] then None else Some (last (PrimaryKeyFields ?res)))"
    unfolding pk pkf by (simp add: last_map)
  have "searchPrimaryKey ?res = PrimaryKey ?res"
  proof (cases "PrimaryKey ?res")
    case None
    with lst have "filter (\<lambda>f. IsPrimaryKey (Col f)) (Type.Fields ?res) = []"
      using sub by (simp split: if_splits)
    then have "find (\<lambda>f. IsPrimaryKey (Col f)) (Type.Fields ?res) = None"
      by (simp add: find_None_iff filter_empty_conv)
    with None show ?thesis by (simp add: searchPrimaryKey_def)
  next
    case (Some f)
    then show ?thesis by (simp add: searchPrimaryKey_def)
  qed
  with run pkf sub lst show ?thesis by blast
qed

text \<open>Claim C10 on the table \<open>order_items\<close>, whose primary key has two columns.\<close>

theorem LoadColumns_primary_key_witness:
  "ColumnList exLoader (DB exArgs) (ArgType.Schema exArgs)
     (Table.TableName (mkTable ''order_items'' ''TABLE''))
     = Inr [mkColumn ''order_id'' ''integer'' True True,
            mkColumn ''item_no'' ''integer'' True True,
            mkColumn ''qty'' ''integer'' True False]
   \<and> (\<exists>t. LoadColumns exX exLoader exArgs
              (newTypeTpl exX exArgs RelType.Table (mkTable ''order_items'' ''TABLE'')) = Inr t
          \<and> PrimaryKeyFields t = [exField (mkColumn ''order_id'' ''integer'' True True),
                                   exField (mkColumn ''item_no'' ''integer'' True True)]
          \<and> PrimaryKey t = Some (exField (mkColumn ''item_no'' ''integer'' True True))
          \<and> searchPrimaryKey t = Some (exField (mkColumn ''item_no'' ''integer'' True True)))"
proof -
  let ?cols = "[mkColumn ''order_id'' ''integer'' True True,
                mkColumn ''item_no'' ''integer'' True True,
                mkColumn ''qty'' ''integer'' True False]"
  have h: "ColumnList exLoader (DB exArgs) (ArgType.Schema exArgs)
             (Table.TableName (mkTable ''order_items'' ''TABLE'')) = Inr ?cols"
    by (simp add: exLoader_def exColumnList_def mkTable_def)
  have f: "filter (\<lambda>c. \<not> ignoreColumn exX exArgs c \<and> IsPrimaryKey c) ?cols =
             [mkColumn ''order_id'' ''integer'' True True, mkColumn ''item_no'' ''integer'' True True]"
    by (simp add: ignoreColumn_def exX_def exArgs_def asciiLower_def mkColumn_def)
  from LoadColumns_primary_key [OF h, of exX RelType.Table] obtain t
    where "LoadColumns exX exLoader exArgs
             (newTypeTpl exX exArgs RelType.Table (mkTable ''order_items'' ''TABLE'')) = Inr t"
      and "PrimaryKeyFields t = map (columnField exX exLoader exArgs)
             (filter (\<lambda>c. \<not> ignoreColumn exX exArgs c \<and> IsPrimaryKey c) ?cols)"
      and "PrimaryKey t = (if PrimaryKeyFields t = [] then None else Some (last (PrimaryKeyFields t)))"
      and "searchPrimaryKey t = PrimaryKey t"
    by blast
  with f h show ?thesis
    by (simp add: exField_def)
qed

section \<open>Properties of the foreign-key and index resolvers\<close>




lemma LoadIndexColumns_step_Type: "Index.Type (LoadIndexColumns_step ixTpl ic) = Index.Type ixTpl"
  by (simp add: LoadIndexColumns_step_def split: option.splits)

lemma LoadIndexColumns_loop_Type: "Index.Type (foldl LoadIndexColumns_step ixTpl ics) = Index.Type ixTpl"
  by (induction ics arbitrary: ixTpl) (simp_all add: LoadIndexColumns_step_Type)








lemma step_no_ref:
  assumes "find (\<lambda>t. Table.TableName (Type.Table t) = RefTableName fk) (map snd tableMap) = None"
  shows "GetTableForeignKeys_step X args tableMap typeTpl st fk = Panic"
  using assms
  by (auto simp: GetTableForeignKeys_step_def Let_def split: prod.splits option.splits)





lemma Col_exField: "Col (exField c) = c"
  by (simp add: exField_def Col_columnField)




text \<open>
  Claim C1.  The claim says that a row whose referenced table is in no relation of
  the table map makes \<open>GetTableForeignKeys\<close> return an error.  On such a row the
  function panics: it reads \<open>refTpl.Fields\<close> before it checks \<open>refTpl\<close>.
\<close>

theorem GetTableForeignKeys_unknown_table:
  "map_of exTableMap ''customers'' = None
   \<and> GetTableForeignKeys exX exArgs exTableMap exOrders None
        [mkForeignKey ''orders_customer_fkey'' ''user_id'' ''customers'' ''id''] 0 = Panic"
  by (simp add: GetTableForeignKeys_def GetTableForeignKeys_step_def exTableMap_def
        exOrders_def exUsers_def Col_exField mkColumn_def mkTable_def mkForeignKey_def exArgs_def
        Let_def)

lemma GetTableForeignKeys_panics:
  assumes "find (\<lambda>t. Table.TableName (Type.Table t) = RefTableName fk) (map snd tableMap) = None"
  shows "GetTableForeignKeys X args tableMap typeTpl fkMap (fk # rows) n = Panic"
  by (simp add: GetTableForeignKeys_def step_no_ref [OF assms])




section \<open>Properties of the implicit primary-key index\<close>

lemma LoadTableIndexes_loop:
  assumes "\<forall>ix\<in>set indexList. \<exists>ics.
             IndexColumnList ldr (DB args) (ArgType.Schema args)
               (Table.TableName (Type.Table typeTpl)) (IndexName ix) = Inr ics"
  shows "\<exists>ixMap1. forE (LoadTableIndexes_step ldr args typeTpl) (b, ixMap) indexList =
           Inr (b \<or> (\<exists>ix\<in>set indexList. IsPrimary ix \<or> Origin ix = ''pk''), ixMap1)"
  using assms
proof (induction indexList arbitrary: b ixMap)
  case Nil
  then show ?case by simp
next
  case (Cons ix rest)
  from Cons.prems obtain ics
    where ics: "IndexColumnList ldr (DB args) (ArgType.Schema args)
                  (Table.TableName (Type.Table typeTpl)) (IndexName ix) = Inr ics"
    by auto
  from ics obtain m where step:
    "LoadTableIndexes_step ldr args typeTpl (b, ixMap) ix =
       Inr (b \<or> IsPrimary ix \<or> Origin ix = ''pk'', m)"
    by (simp add: LoadTableIndexes_step_def LoadIndexColumns_def Let_def)
  from Cons.prems have "\<forall>ix\<in>set rest. \<exists>ics.
             IndexColumnList ldr (DB args) (ArgType.Schema args)
               (Table.TableName (Type.Table typeTpl)) (IndexName ix) = Inr ics"
    by simp
  from Cons.IH [OF this, of "b \<or> IsPrimary ix \<or> Origin ix = ''pk''" m] step
  show ?case by auto
qed

lemma find_first:
  assumes "P x" and "\<forall>y\<in>set pre. \<not> P y"
  shows "find P (pre @ x # post) = Some x"
  using assms by (induction pre) auto

lemma find_Some_split:
  assumes "find P xs = Some x"
  shows "\<exists>pre post. xs = pre @ x # post \<and> P x \<and> (\<forall>y\<in>set pre. \<not> P y)"
  using assms
proof (induction xs)
  case Nil
  then show ?case by simp
next
  case (Cons a xs)
  show ?case
  proof (cases "P a")
    case True
    with Cons.prems have "a = x" by simp
    with True have "a # xs = [] @ x # xs \<and> P x \<and> (\<forall>y\<in>set []. \<not> P y)" by simp
    then show ?thesis by blast
  next
    case False
    with Cons obtain pre post where "xs = pre @ x # post" "P x" "\<forall>y\<in>set pre. \<not> P y"
      by auto
    with False have "a # xs = (a # pre) @ x # post \<and> P x \<and> (\<forall>y\<in>set (a # pre). \<not> P y)"
      by simp
    then show ?thesis by blast
  qed
qed

text \<open>
  The primary key that \<open>LoadTableIndexes\<close> finds, in terms of the relation: the
  field in \<open>PrimaryKey\<close>, or, when there is none, the first field whose column
  has the primary-key flag.
\<close>

lemma searchPrimaryKey_iff:
  "searchPrimaryKey typeTpl = Some pk \<longleftrightarrow>
     PrimaryKey typeTpl = Some pk
     \<or> (PrimaryKey typeTpl = None
        \<and> (\<exists>pre post. Type.Fields typeTpl = pre @ pk # post \<and> IsPrimaryKey (Col pk)
               \<and> (\<forall>f\<in>set pre. \<not> IsPrimaryKey (Col f))))"
proof (cases "PrimaryKey typeTpl")
  case None
  show ?thesis
  proof
    assume "searchPrimaryKey typeTpl = Some pk"
    with None have "find (\<lambda>f. IsPrimaryKey (Col f)) (Type.Fields typeTpl) = Some pk"
      by (simp add: searchPrimaryKey_def)
    from find_Some_split [OF this] None show
      "PrimaryKey typeTpl = Some pk
       \<or> (PrimaryKey typeTpl = None
          \<and> (\<exists>pre post. Type.Fields typeTpl = pre @ pk # post \<and> IsPrimaryKey (Col pk)
                 \<and> (\<forall>f\<in>set pre. \<not> IsPrimaryKey (Col f))))"
      by simp
  next
    assume "PrimaryKey typeTpl = Some pk
       \<or> (PrimaryKey typeTpl = None
          \<and> (\<exists>pre post. Type.Fields typeTpl = pre @ pk # post \<and> IsPrimaryKey (Col pk)
                 \<and> (\<forall>f\<in>set pre. \<not> IsPrimaryKey (Col f))))"
    with None obtain pre post where "Type.Fields typeTpl = pre @ pk # post"
      "IsPrimaryKey (Col pk)" "\<forall>f\<in>set pre. \<not> IsPrimaryKey (Col f)"
      by auto
    with None show "searchPrimaryKey typeTpl = Some pk"
      by (simp add: searchPrimaryKey_def find_first [where P = "\<lambda>f. IsPrimaryKey (Col f)"])
  qed
next
  case (Some f)
  then show ?thesis by (simp add: searchPrimaryKey_def)
qed

text \<open>
  Claim C5.  Let the index list and the columns of each of its indexes be read
  without error, let no index of the list be flagged primary or have origin
  \<open>pk\<close>, and let the relation have a primary-key field \<open>pk\<close>: \<open>pk\<close> is its
  \<open>PrimaryKey\<close>, or its \<open>PrimaryKey\<close> is empty and \<open>pk\<close> is the first of its
  fields whose column has the primary-key flag.  Then \<open>LoadTableIndexes\<close>
  returns the map of the catalog indexes with one more entry, under the key
  \<open><table>_<pkcolumn>_pkey\<close>: an index of this name, unique and primary, whose
  only field is \<open>pk\<close>; for the loader type \<open>ora\<close> it returns the map of the
  catalog indexes alone.
\<close>

theorem LoadTableIndexes_implicit_primary_key:
  assumes list: "IndexList ldr (DB args) (ArgType.Schema args)
                   (Table.TableName (Type.Table typeTpl)) = Inr indexList"
    and cols: "\<forall>ix\<in>set indexList. \<exists>ics.
                 IndexColumnList ldr (DB args) (ArgType.Schema args)
                   (Table.TableName (Type.Table typeTpl)) (IndexName ix) = Inr ics"
    and nopri: "\<forall>ix\<in>set indexList. \<not> IsPrimary ix \<and> Origin ix \<noteq> ''pk''"
    and pk: "PrimaryKey typeTpl = Some pk
             \<or> (PrimaryKey typeTpl = None
                \<and> (\<exists>pre post. Type.Fields typeTpl = pre @ pk # post \<and> IsPrimaryKey (Col pk)
                       \<and> (\<forall>f\<in>set pre. \<not> IsPrimaryKey (Col f))))"
  shows "\<exists>ixMap1.
           forE (LoadTableIndexes_step ldr args typeTpl) (False, ixMap) indexList = Inr (False, ixMap1)
           \<and> LoadTableIndexes ldr args typeTpl ixMap =
               Inr (if LoaderType args = ''ora'' then ixMap1
                    else AList.update
                           (Table.TableName (Type.Table typeTpl) @ ''_''
                            @ Column.ColumnName (Col pk) @ ''_pkey'')
                           \<lparr>FuncName = Type.Name typeTpl @ ''By'' @ Field.Name pk,
                            Index.Schema = ArgType.Schema args,
                            Index.Type = typeTpl,
                            Index.Fields = [pk],
                            Index.Index =
                              \<lparr>IndexName = Table.TableName (Type.Table typeTpl) @ ''_''
                                             @ Column.ColumnName (Col pk) @ ''_pkey'',
                               IsUnique = True, IsPrimary = True, Origin = []\<rparr>\<rparr>
                           ixMap1)
           \<and> LoadTableIndexes ldr args typeTpl ixMap =
               Inr (if LoaderType args = ''ora'' then ixMap1
                    else AList.update (pkeyIndexName typeTpl pk) (pkeyIndex args typeTpl pk) ixMap1)
           \<and> pkeyIndexName typeTpl pk =
               Table.TableName (Type.Table typeTpl) @ ''_'' @ Column.ColumnName (Col pk) @ ''_pkey''
           \<and> IndexName (Index.Index (pkeyIndex args typeTpl pk)) = pkeyIndexName typeTpl pk
           \<and> IsUnique (Index.Index (pkeyIndex args typeTpl pk))
           \<and> IsPrimary (Index.Index (pkeyIndex args typeTpl pk))
           \<and> Index.Fields (pkeyIndex args typeTpl pk) = [pk]"
proof -
  from pk have spk: "searchPrimaryKey typeTpl = Some pk"
    by (simp add: searchPrimaryKey_iff)
  from LoadTableIndexes_loop [OF cols, of False ixMap] nopri obtain ixMap1
    where loop: "forE (LoadTableIndexes_step ldr args typeTpl) (False, ixMap) indexList =
                   Inr (False, ixMap1)"
    by auto
  have "LoadTableIndexes ldr args typeTpl ixMap =
          Inr (if LoaderType args = ''ora'' then ixMap1
               else AList.update (pkeyIndexName typeTpl pk) (pkeyIndex args typeTpl pk) ixMap1)"
    using list loop spk by (simp add: LoadTableIndexes_def)
  with loop show ?thesis
    by (simp add: pkeyIndex_def pkeyIndexName_def)
qed

text \<open>
  Claim C5 on the table \<open>users\<close>, whose only catalog index is not primary: with
  the primary key in \<open>PrimaryKey\<close>, for the loader type \<open>ora\<close>, and with an empty
  \<open>PrimaryKey\<close> and the flagged field after another field.
\<close>

theorem LoadTableIndexes_implicit_primary_key_witness:
  "IndexList exLoader (DB exArgs) (ArgType.Schema exArgs) (Table.TableName (Type.Table exUsers))
     = Inr [Index.Index exUpdatedIdx]
   \<and> PrimaryKey exUsers = Some (exField (mkColumn ''id'' ''integer'' True True))
   \<and> LoaderType exArgs \<noteq> ''ora''
   \<and> LoadTableIndexes exLoader exArgs exUsers [] =
       Inr [(''users_users_updated_idx'', exUpdatedIdx\<lparr>FuncName := ''usersBy''\<rparr>),
            (''users_id_pkey'',
             \<lparr>FuncName = ''usersByid'', Index.Schema = ''public'', Index.Type = exUsers,
              Index.Fields = [exField (mkColumn ''id'' ''integer'' True True)],
              Index.Index = \<lparr>IndexName = ''users_id_pkey'', IsUnique = True, IsPrimary = True,
                              Origin = []\<rparr>\<rparr>)]
   \<and> LoadTableIndexes exLoader (exArgs\<lparr>LoaderType := ''ora''\<rparr>) exUsers [] =
       Inr [(''users_users_updated_idx'', exUpdatedIdx\<lparr>FuncName := ''usersBy''\<rparr>)]
   \<and> PrimaryKey exUsersNoSlot = None
   \<and> Type.Fields exUsersNoSlot =
       [exField (mkColumn ''email'' ''text'' True False)]
       @ exField (mkColumn ''id'' ''integer'' True True) # []
   \<and> \<not> IsPrimaryKey (Col (exField (mkColumn ''email'' ''text'' True False)))
   \<and> IsPrimaryKey (Col (exField (mkColumn ''id'' ''integer'' True True)))
   \<and> LoadTableIndexes exLoader exArgs exUsersNoSlot [] =
       Inr [(''users_users_updated_idx'',
             exUpdatedIdx\<lparr>FuncName := ''usersBy'', Index.Type := exUsersNoSlot\<rparr>),
            (''users_id_pkey'',
             \<lparr>FuncName = ''usersByid'', Index.Schema = ''public'', Index.Type = exUsersNoSlot,
              Index.Fields = [exField (mkColumn ''id'' ''integer'' True True)],
              Index.Index = \<lparr>IndexName = ''users_id_pkey'', IsUnique = True, IsPrimary = True,
                              Origin = []\<rparr>\<rparr>)]"
proof -
  let ?ora = "exArgs\<lparr>LoaderType := ''ora''\<rparr>"
  let ?id = "exField (mkColumn ''id'' ''integer'' True True)"
  let ?email = "exField (mkColumn ''email'' ''text'' True False)"
  let ?idx = "(''users_users_updated_idx'', exUpdatedIdx\<lparr>FuncName := ''usersBy''\<rparr>)"
  let ?idxN = "(''users_users_updated_idx'',
                exUpdatedIdx\<lparr>FuncName := ''usersBy'', Index.Type := exUsersNoSlot\<rparr>)"
  have tab: "Type.Table exUsers = mkTable ''users'' ''TABLE''"
    "Type.Table exUsersNoSlot = mkTable ''users'' ''TABLE''"
    "Type.Name exUsers = ''users''" "Type.Name exUsersNoSlot = ''users''"
    "Type.Fields exUsers = [?id, ?email]" "Type.Fields exUsersNoSlot = [?email, ?id]"
    by (simp_all add: exUsers_def exUsersNoSlot_def)
  have l1: "IndexList exLoader (DB exArgs) (ArgType.Schema exArgs)
              (Table.TableName (Type.Table exUsers)) = Inr [Index.Index exUpdatedIdx]"
    by (simp add: exLoader_def exIndexList_def tab mkTable_def exUpdatedIdx_def)
  have l2: "IndexList exLoader (DB ?ora) (ArgType.Schema ?ora)
              (Table.TableName (Type.Table exUsers)) = Inr [Index.Index exUpdatedIdx]"
    by (simp add: exLoader_def exIndexList_def tab mkTable_def exUpdatedIdx_def)
  have l3: "IndexList exLoader (DB exArgs) (ArgType.Schema exArgs)
              (Table.TableName (Type.Table exUsersNoSlot)) = Inr [Index.Index exUpdatedIdx]"
    by (simp add: exLoader_def exIndexList_def tab mkTable_def exUpdatedIdx_def)
  have c1: "\<forall>ix\<in>set [Index.Index exUpdatedIdx]. \<exists>ics.
              IndexColumnList exLoader (DB exArgs) (ArgType.Schema exArgs)
                (Table.TableName (Type.Table exUsers)) (IndexName ix) = Inr ics"
    by (simp add: exLoader_def exIndexColumnList_def)
  have c2: "\<forall>ix\<in>set [Index.Index exUpdatedIdx]. \<exists>ics.
              IndexColumnList exLoader (DB ?ora) (ArgType.Schema ?ora)
                (Table.TableName (Type.Table exUsers)) (IndexName ix) = Inr ics"
    by (simp add: exLoader_def exIndexColumnList_def)
  have c3: "\<forall>ix\<in>set [Index.Index exUpdatedIdx]. \<exists>ics.
              IndexColumnList exLoader (DB exArgs) (ArgType.Schema exArgs)
                (Table.TableName (Type.Table exUsersNoSlot)) (IndexName ix) = Inr ics"
    by (simp add: exLoader_def exIndexColumnList_def)
  have n: "\<forall>ix\<in>set [Index.Index exUpdatedIdx]. \<not> IsPrimary ix \<and> Origin ix \<noteq> ''pk''"
    by (simp add: exUpdatedIdx_def)
  have slot: "PrimaryKey exUsers = Some ?id"
    by (simp add: exUsers_def)
  have p1: "PrimaryKey exUsers = Some ?id
            \<or> (PrimaryKey exUsers = None
               \<and> (\<exists>pre post. Type.Fields exUsers = pre @ ?id # post \<and> IsPrimaryKey (Col ?id)
                      \<and> (\<forall>f\<in>set pre. \<not> IsPrimaryKey (Col f))))"
    using slot by simp
  have e1: "PrimaryKey exUsersNoSlot = None"
    by (simp add: exUsersNoSlot_def)
  have e2: "Type.Fields exUsersNoSlot = [?email] @ ?id # []"
    by (simp add: tab)
  have e3: "\<not> IsPrimaryKey (Col ?email)" "IsPrimaryKey (Col ?id)"
    by (simp_all add: Col_exField mkColumn_def)
  from e2 e3 have "\<exists>pre post. Type.Fields exUsersNoSlot = pre @ ?id # post \<and> IsPrimaryKey (Col ?id)
                      \<and> (\<forall>f\<in>set pre. \<not> IsPrimaryKey (Col f))"
    by (intro exI [of _ "[?email]"] exI [of _ "[]"]) simp
  with e1 have p3: "PrimaryKey exUsersNoSlot = Some ?id
            \<or> (PrimaryKey exUsersNoSlot = None
               \<and> (\<exists>pre post. Type.Fields exUsersNoSlot = pre @ ?id # post \<and> IsPrimaryKey (Col ?id)
                      \<and> (\<forall>f\<in>set pre. \<not> IsPrimaryKey (Col f))))"
    by simp
  have step: "forE (LoadTableIndexes_step exLoader exArgs exUsers) (False, [])
                [Index.Index exUpdatedIdx] = Inr (False, [?idx])"
    by (simp add: LoadTableIndexes_step_def LoadIndexColumns_def LoadIndexColumns_step_def
          exUpdatedIdx_def exLoader_def exIndexColumnList_def tab Col_exField mkColumn_def
          mkTable_def exArgs_def Let_def)
  have step2: "forE (LoadTableIndexes_step exLoader ?ora exUsers) (False, [])
                 [Index.Index exUpdatedIdx] = Inr (False, [?idx])"
    by (simp add: LoadTableIndexes_step_def LoadIndexColumns_def LoadIndexColumns_step_def
          exUpdatedIdx_def exLoader_def exIndexColumnList_def tab Col_exField mkColumn_def
          mkTable_def exArgs_def Let_def)
  have step3: "forE (LoadTableIndexes_step exLoader exArgs exUsersNoSlot) (False, [])
                 [Index.Index exUpdatedIdx] = Inr (False, [?idxN])"
    by (simp add: LoadTableIndexes_step_def LoadIndexColumns_def LoadIndexColumns_step_def
          exUpdatedIdx_def exLoader_def exIndexColumnList_def tab Col_exField mkColumn_def
          mkTable_def exArgs_def Let_def)
  have nora: "LoaderType exArgs \<noteq> ''ora''" "LoaderType ?ora = ''ora''"
    by (simp_all add: exArgs_def)
  have nm: "Field.Name ?id = ''id''" "Column.ColumnName (Col ?id) = ''id''"
    "ArgType.Schema exArgs = ''public''"
    by (simp_all add: exField_def columnField_def exX_def mkColumn_def exArgs_def
          split: prod.splits)
  from LoadTableIndexes_implicit_primary_key [OF l1 c1 n p1, of "[]"]
       LoadTableIndexes_implicit_primary_key [OF l2 c2 n p1, of "[]"]
       LoadTableIndexes_implicit_primary_key [OF l3 c3 n p3, of "[]"]
       step step2 step3 nora
  have "LoadTableIndexes exLoader exArgs exUsers [] =
          Inr [?idx,
               (''users_id_pkey'',
                \<lparr>FuncName = ''usersByid'', Index.Schema = ''public'', Index.Type = exUsers,
                 Index.Fields = [?id],
                 Index.Index = \<lparr>IndexName = ''users_id_pkey'', IsUnique = True, IsPrimary = True,
                                 Origin = []\<rparr>\<rparr>)]"
    and "LoadTableIndexes exLoader ?ora exUsers [] = Inr [?idx]"
    and "LoadTableIndexes exLoader exArgs exUsersNoSlot [] =
          Inr [?idxN,
               (''users_id_pkey'',
                \<lparr>FuncName = ''usersByid'', Index.Schema = ''public'', Index.Type = exUsersNoSlot,
                 Index.Fields = [?id],
                 Index.Index = \<lparr>IndexName = ''users_id_pkey'', IsUnique = True, IsPrimary = True,
                                 Origin = []\<rparr>\<rparr>)]"
    by (simp_all add: tab nm mkTable_def)
  with l1 slot nora(1) e1 e2 e3 show ?thesis
    by simp
qed


section \<open>Properties of the foreign-key filter\<close>


lemma HasPrefix_iff: "HasPrefix s p = (\<exists>ss. s = p @ ss)"
proof
  assume "HasPrefix s p"
  then have "s = p @ drop (length p) s"
    by (metis HasPrefix_def append_take_drop_id)
  then show "\<exists>ss. s = p @ ss" ..
next
  assume "\<exists>ss. s = p @ ss"
  then show "HasPrefix s p" by (auto simp: HasPrefix_def)
qed

lemma Contains_iff: "Contains s substr = (\<exists>ps ss. s = ps @ substr @ ss)"
proof (induction s)
  case Nil
  then show ?case by auto
next
  case (Cons c s)
  show ?case
  proof
    assume "Contains (c # s) substr"
    then consider "HasPrefix (c # s) substr" | "Contains s substr" by auto
    then show "\<exists>ps ss. c # s = ps @ substr @ ss"
    proof cases
      case 1
      then obtain ss where "c # s = substr @ ss" by (auto simp: HasPrefix_iff)
      then have "c # s = [] @ substr @ ss" by simp
      then show ?thesis by blast
    next
      case 2
      with Cons.IH obtain ps ss where "s = ps @ substr @ ss" by auto
      then have "c # s = (c # ps) @ substr @ ss" by simp
      then show ?thesis by blast
    qed
  next
    assume "\<exists>ps ss. c # s = ps @ substr @ ss"
    then obtain ps ss where eq: "c # s = ps @ substr @ ss" by auto
    show "Contains (c # s) substr"
    proof (cases ps)
      case Nil
      with eq have "HasPrefix (c # s) substr" by (auto simp: HasPrefix_iff)
      then show ?thesis by simp
    next
      case (Cons a ps')
      with eq have "s = ps' @ substr @ ss" by simp
      with Cons.IH have "Contains s substr" by auto
      then show ?thesis by simp
    qed
  qed
qed

lemma foldl_append_filter:
  "foldl (\<lambda>acc x. if P x then acc @ [x] else acc) acc0 xs = acc0 @ filter P xs"
  by (induction xs arbitrary: acc0) auto

text \<open>
  Claim C7.  When the DSN parses to the driver \<open>cockroachdb\<close>,
  \<open>extractProperForeignKeys\<close> returns the rows whose constraint name contains
  their column name, in their order; for any other driver it returns the list
  as it is.
\<close>

theorem extractProperForeignKeys_filter:
  assumes "dburl_Parse X dsn = Inr unaliased"
  shows "extractProperForeignKeys X fkList dsn =
           Inr (if unaliased = ''cockroachdb''
                then filter (\<lambda>fk. \<exists>ps ss. models_ForeignKey.ForeignKeyName fk =
                                     ps @ models_ForeignKey.ColumnName fk @ ss) fkList
                else fkList)"
  using assms
  by (simp add: extractProperForeignKeys_def Let_def foldl_append_filter Contains_iff)

text \<open>
  Claim C7 on two rows of which only the first has a constraint name that contains
  its column name.
\<close>

theorem extractProperForeignKeys_filter_witness:
  "dburl_Parse exX ''cockroachdb://localhost/shop'' = Inr ''cockroachdb''
   \<and> dburl_Parse exX ''postgres://localhost/shop'' = Inr ''postgres''
   \<and> extractProperForeignKeys exX
        [mkForeignKey ''fk_user_id_ref_users'' ''user_id'' ''users'' ''id'',
         mkForeignKey ''orders_auto_index_uq'' ''stamp'' ''users'' ''id'']
        ''cockroachdb://localhost/shop''
       = Inr [mkForeignKey ''fk_user_id_ref_users'' ''user_id'' ''users'' ''id'']
   \<and> extractProperForeignKeys exX
        [mkForeignKey ''fk_user_id_ref_users'' ''user_id'' ''users'' ''id'',
         mkForeignKey ''orders_auto_index_uq'' ''stamp'' ''users'' ''id'']
        ''postgres://localhost/shop''
       = Inr [mkForeignKey ''fk_user_id_ref_users'' ''user_id'' ''users'' ''id'',
              mkForeignKey ''orders_auto_index_uq'' ''stamp'' ''users'' ''id'']"
proof -
  let ?rows = "[mkForeignKey ''fk_user_id_ref_users'' ''user_id'' ''users'' ''id'',
                mkForeignKey ''orders_auto_index_uq'' ''stamp'' ''users'' ''id'']"
  have c: "dburl_Parse exX ''cockroachdb://localhost/shop'' = Inr ''cockroachdb''"
    by (simp add: exX_def exParse_def HasPrefix_def)
  have p: "dburl_Parse exX ''postgres://localhost/shop'' = Inr ''postgres''"
    by (simp add: exX_def exParse_def HasPrefix_def)
  have k1: "Contains ''fk_user_id_ref_users'' ''user_id''"
    by (simp add: HasPrefix_def)
  have k2: "\<not> Contains ''orders_auto_index_uq'' ''stamp''"
    by (simp add: HasPrefix_def)
  from extractProperForeignKeys_filter [OF c, of ?rows]
       extractProperForeignKeys_filter [OF p, of ?rows] c p k1 k2
  show ?thesis
    by (simp add: Contains_iff [symmetric] mkForeignKey_def)
qed


section \<open>Properties of the schema loader\<close>


lemma mergeViews_map_of:
  assumes "distinct (map fst viewMap)"
  shows "map_of (mergeViews tableMap viewMap) k =
           (case map_of viewMap k of Some v \<Rightarrow> Some v | None \<Rightarrow> map_of tableMap k)"
  using assms unfolding mergeViews_def
proof (induction viewMap arbitrary: tableMap)
  case Nil
  then show ?case by simp
next
  case (Cons kv viewMap)
  then have "map_of viewMap (fst kv) = None"
    by (cases kv) (auto simp: map_of_eq_None_iff)
  with Cons show ?case
    by (cases kv) (auto simp: update_conv' split: option.splits)
qed

lemma LoadColumns_RelType:
  assumes "LoadColumns X ldr args t0 = Inr t"
  shows "RelType t = RelType t0"
  using assms by (auto simp: LoadColumns_def LoadColumns_loop_rest split: sum.splits)

lemma LoadRelkind_step_inv:
  assumes "LoadRelkind_step X ldr args relType m ti = Inr m'"
    and "distinct (map fst m)" and "\<forall>kt\<in>set m. RelType (snd kt) = relType"
  shows "distinct (map fst m') \<and> (\<forall>kt\<in>set m'. RelType (snd kt) = relType)"
proof (cases "ignoreTable X args ti")
  case True
  with assms show ?thesis by (simp add: LoadRelkind_step_def)
next
  case False
  with assms(1) obtain t where t: "LoadColumns X ldr args (newTypeTpl X args relType ti) = Inr t"
    and m': "m' = AList.update (Table.TableName ti) t m"
    by (auto simp: LoadRelkind_step_def split: sum.splits)
  from LoadColumns_RelType [OF t] have rt: "RelType t = relType"
    by (simp add: newTypeTpl_def)
  have "set (AList.update (Table.TableName ti) t m) \<subseteq> insert (Table.TableName ti, t) (set m)"
    by (induction m) auto
  with rt assms(3) have "\<forall>kt\<in>set m'. RelType (snd kt) = relType"
    unfolding m' by auto
  with assms(2) show ?thesis
    unfolding m' by (simp add: distinct_update)
qed

lemma LoadRelkind_loop_inv:
  assumes "forE (LoadRelkind_step X ldr args relType) m tableList = Inr m'"
    and "distinct (map fst m)" and "\<forall>kt\<in>set m. RelType (snd kt) = relType"
  shows "distinct (map fst m') \<and> (\<forall>kt\<in>set m'. RelType (snd kt) = relType)"
  using assms
proof (induction tableList arbitrary: m)
  case Nil
  then show ?case by simp
next
  case (Cons ti rest)
  from Cons.prems(1) obtain m1
    where s: "LoadRelkind_step X ldr args relType m ti = Inr m1"
      and r: "forE (LoadRelkind_step X ldr args relType) m1 rest = Inr m'"
    by (auto split: sum.splits)
  from LoadRelkind_step_inv [OF s Cons.prems(2,3)] Cons.IH [OF r] show ?case
    by blast
qed

lemma LoadRelkind_templates_inv:
  assumes "LoadRelkind_templates X ldr args done todo = Ok m"
  shows "map fst m = map fst (done @ todo)
         \<and> map (\<lambda>kt. RelType (snd kt)) m = map (\<lambda>kt. RelType (snd kt)) (done @ todo)"
  using assms
proof (induction todo arbitrary: "done")
  case Nil
  then show ?case by simp
next
  case (Cons kt rest)
  obtain k t where kt: "kt = (k, t)" by (cases kt)
  let ?t1 = "t\<lparr>Type.Sqlx := ArgType.Sqlx args\<rparr>"
  from Cons.prems have "LoadRelkind_templates X ldr args (done @ [(k, ?t1)]) rest = Ok m"
    unfolding kt by (auto simp: Let_def split: result.splits option.splits if_splits)
  from Cons.IH [OF this] show ?case
    unfolding kt by simp
qed

lemma LoadRelkind_Ok:
  assumes "LoadRelkind X ldr args relType = Ok m"
  shows "(\<exists>tableList. TableList ldr (DB args) (ArgType.Schema args) (Relkind X ldr relType) = Inr tableList)
         \<and> distinct (map fst m) \<and> (\<forall>kt\<in>set m. RelType (snd kt) = relType)"
proof -
  from assms obtain tableList m0
    where tl: "TableList ldr (DB args) (ArgType.Schema args) (Relkind X ldr relType) = Inr tableList"
      and loop: "forE (LoadRelkind_step X ldr args relType) [] tableList = Inr m0"
      and tpl: "LoadRelkind_templates X ldr args [] m0 = Ok m"
    by (auto simp: LoadRelkind_def split: sum.splits)
  from LoadRelkind_loop_inv [OF loop] have d0: "distinct (map fst m0)"
    and r0: "\<forall>kt\<in>set m0. RelType (snd kt) = relType"
    by simp_all
  from LoadRelkind_templates_inv [OF tpl] have k: "map fst m = map fst m0"
    and r: "map (\<lambda>kt. RelType (snd kt)) m = map (\<lambda>kt. RelType (snd kt)) m0"
    by simp_all
  from r0 have "\<forall>x\<in>set (map (\<lambda>kt. RelType (snd kt)) m0). x = relType"
    by simp
  with r have "\<forall>x\<in>set (map (\<lambda>kt. RelType (snd kt)) m). x = relType"
    by simp
  then have "\<forall>kt\<in>set m. RelType (snd kt) = relType"
    by simp
  with tl d0 k show ?thesis
    by simp
qed

text \<open>
  Claim C8.  When \<open>LoadSchema\<close> succeeds, the tables and the views were loaded by
  two calls of \<open>LoadRelkind\<close>, each with the table-list query of the adapter at
  the relation kind of its type (and with the arguments as \<open>LoadEnums\<close> left them), and the map that \<open>LoadSchema\<close> resolves foreign
  keys and indexes against holds, under every name, the view of this name if
  there is one and the table of this name otherwise; under a name that both
  maps have it holds the view.
\<close>

theorem LoadSchema_views_overwrite_tables:
  assumes "LoadSchema X ldr args n = Ok merged"
  shows "\<exists>args1 enumMap tableList viewList tableMap viewMap.
           LoadEnums X ldr args = Ok (args1, enumMap)
           \<and> TableList ldr (DB args1) (ArgType.Schema args1) (Relkind X ldr RelType.Table)
               = Inr tableList
           \<and> TableList ldr (DB args1) (ArgType.Schema args1) (Relkind X ldr View) = Inr viewList
           \<and> LoadRelkind X ldr args1 RelType.Table = Ok tableMap
           \<and> LoadRelkind X ldr args1 View = Ok viewMap
           \<and> (\<forall>k. map_of merged k =
                    (case map_of viewMap k of Some v \<Rightarrow> Some v | None \<Rightarrow> map_of tableMap k))
           \<and> (\<forall>k v t. map_of viewMap k = Some v \<and> map_of tableMap k = Some t \<longrightarrow>
                    map_of merged k = Some v \<and> RelType v = View \<and> RelType t = RelType.Table)"
proof -
  from assms obtain args1 enumMap tableMap viewMap
    where e: "LoadEnums X ldr args = Ok (args1, enumMap)"
      and t: "LoadRelkind X ldr args1 RelType.Table = Ok tableMap"
      and v: "LoadRelkind X ldr args1 View = Ok viewMap"
      and m: "merged = mergeViews tableMap viewMap"
    by (auto simp: LoadSchema_def Let_def split: result.splits sum.splits)
  from LoadRelkind_Ok [OF t] obtain tableList
    where tl: "TableList ldr (DB args1) (ArgType.Schema args1) (Relkind X ldr RelType.Table)
                 = Inr tableList"
      and rt: "\<forall>kt\<in>set tableMap. RelType (snd kt) = RelType.Table"
    by blast
  from LoadRelkind_Ok [OF v] obtain viewList
    where vl: "TableList ldr (DB args1) (ArgType.Schema args1) (Relkind X ldr View) = Inr viewList"
      and dv: "distinct (map fst viewMap)"
      and rv: "\<forall>kt\<in>set viewMap. RelType (snd kt) = View"
    by blast
  have lookup: "\<forall>k. map_of merged k =
                  (case map_of viewMap k of Some v \<Rightarrow> Some v | None \<Rightarrow> map_of tableMap k)"
    unfolding m by (simp add: mergeViews_map_of [OF dv])
  have both: "map_of merged k = Some v \<and> RelType v = View \<and> RelType t = RelType.Table"
    if "map_of viewMap k = Some v" "map_of tableMap k = Some t" for k v t
  proof -
    from that(1) have "(k, v) \<in> set viewMap" by (rule map_of_SomeD)
    with rv have "RelType v = View" by auto
    moreover from that(2) have "(k, t) \<in> set tableMap" by (rule map_of_SomeD)
    with rt have "RelType t = RelType.Table" by auto
    ultimately show ?thesis using lookup that(1) by simp
  qed
  from e tl vl t v lookup both show ?thesis
    by blast
qed

lemmas ex_defs = exLoader_def exArgs_def exX_def exDB_def mkTable_def mkColumn_def mkForeignKey_def
  exColumnList_def exTableList_def exForeignKeyList_def exIndexList_def exIndexColumnList_def
  asciiLower_def exParse_def

lemma LoadRelkind_tables: "LoadRelkind exX exLoader exArgs RelType.Table = Ok exTables"
  by (simp add: LoadRelkind_def Relkind_def LoadRelkind_step_def ignoreTable_def LoadColumns_def
        newTypeTpl_def LoadColumns_step_def ignoreColumn_def Let_def exField_def
        exTables_def exUsers_def exOrders_def exOrderItems_def exReport_def ex_defs)

lemma LoadRelkind_views: "LoadRelkind exX exLoader exArgs View = Ok exViews"
  by (simp add: LoadRelkind_def Relkind_def LoadRelkind_step_def ignoreTable_def LoadColumns_def
        newTypeTpl_def LoadColumns_step_def ignoreColumn_def Let_def exField_def
        exViews_def exReport_def ex_defs)

lemma mergeViews_ex: "mergeViews exTables exViews = exMerged"
  by (simp add: mergeViews_def exTables_def exViews_def exMerged_def)

lemma ex_proj:
  "Type.Table exUsers = mkTable ''users'' ''TABLE''"
  "Type.Table exOrders = mkTable ''orders'' ''TABLE''"
  "Type.Table exOrderItems = mkTable ''order_items'' ''TABLE''"
  "Type.Table (exReport relType kind) = mkTable ''report'' kind"
  "Type.Name exUsers = ''users''"
  "Type.Name exOrders = ''orders''"
  "Type.Name exOrderItems = ''order_items''"
  "Type.Name (exReport relType kind) = ''report''"
  "PrimaryKey exUsers = Some (exField (mkColumn ''id'' ''integer'' True True))"
  "PrimaryKey exOrders = Some (exField (mkColumn ''id'' ''integer'' True True))"
  "PrimaryKey exOrderItems = Some (exField (mkColumn ''item_no'' ''integer'' True True))"
  "PrimaryKey (exReport relType kind) = None"
  "Type.Fields exUsers = [exField (mkColumn ''id'' ''integer'' True True),
                          exField (mkColumn ''email'' ''text'' True False)]"
  "Type.Fields exOrders = [exField (mkColumn ''id'' ''integer'' True True),
                           exField (mkColumn ''user_id'' ''integer'' True False),
                           exField (mkColumn ''stamp'' ''timestamp with time zone'' False False)]"
  "Type.Fields exOrderItems = [exField (mkColumn ''order_id'' ''integer'' True True),
                               exField (mkColumn ''item_no'' ''integer'' True True),
                               exField (mkColumn ''qty'' ''integer'' True False)]"
  "Type.Fields (exReport relType kind) = [exField (mkColumn ''total'' ''numeric'' False False)]"
  by (simp_all add: exUsers_def exOrders_def exOrderItems_def exReport_def)

lemma ex_args_proj:
  "DB exArgs = exDB" "ArgType.Schema exArgs = ''public''" "DSN exArgs = ''postgres://localhost/shop''"
  "LoaderType exArgs = ''postgres''" "ExecuteTemplate exArgs tt name sub obj = None"
  by (simp_all add: exArgs_def)

lemma ex_loader_proj:
  "ForeignKeyList exLoader = exForeignKeyList" "IndexList exLoader = exIndexList"
  "IndexColumnList exLoader = exIndexColumnList"
  by (simp_all add: exLoader_def)

lemma ex_parse_dsn: "dburl_Parse exX ''postgres://localhost/shop'' = Inr ''postgres''"
  by (simp add: exX_def exParse_def HasPrefix_def)

lemma LoadForeignKeys_ex: "\<exists>r. LoadForeignKeys exX exLoader exArgs exMerged 0 = Ok r"
  by (simp add: LoadForeignKeys_def LoadTableForeignKeys_def extractProperForeignKeys_def
        GetTableForeignKeys_def GetTableForeignKeys_step_def Let_def
        exMerged_def ex_proj ex_args_proj ex_loader_proj ex_parse_dsn Col_exField
        exForeignKeyList_def mkTable_def mkColumn_def mkForeignKey_def)

lemma LoadIndexes_ex: "\<exists>r. LoadIndexes exLoader exArgs exMerged = Inr r"
  by (simp add: LoadIndexes_def LoadTableIndexes_def LoadTableIndexes_step_def
        LoadIndexColumns_def LoadIndexColumns_step_def searchPrimaryKey_def Let_def
        exMerged_def ex_proj ex_args_proj ex_loader_proj Col_exField
        exIndexList_def exIndexColumnList_def mkTable_def mkColumn_def)

lemma LoadEnums_ex: "LoadEnums exX exLoader exArgs = Ok (exArgs, [])"
  by (simp add: LoadEnums_def exLoader_def)

lemma LoadProcs_ex: "LoadProcs exX exLoader exArgs = Inr []"
  by (simp add: LoadProcs_def exLoader_def)

lemma LoadSchema_ex: "LoadSchema exX exLoader exArgs 0 = Ok exMerged"
  using LoadForeignKeys_ex LoadIndexes_ex
  by (auto simp: LoadSchema_def LoadEnums_ex LoadProcs_ex LoadRelkind_tables LoadRelkind_views
        mergeViews_ex)

text \<open>
  Claim C8 on the sample database, where \<open>report\<close> is the name of a table and of a
  view.
\<close>

theorem LoadSchema_views_overwrite_tables_witness:
  "LoadSchema exX exLoader exArgs 0 = Ok exMerged
   \<and> LoadEnums exX exLoader exArgs = Ok (exArgs, [])
   \<and> LoadRelkind exX exLoader exArgs RelType.Table = Ok exTables
   \<and> LoadRelkind exX exLoader exArgs View = Ok exViews
   \<and> map_of exTables ''report'' = Some (exReport RelType.Table ''TABLE'')
   \<and> map_of exViews ''report'' = Some (exReport View ''VIEW'')
   \<and> map_of exMerged ''report'' = Some (exReport View ''VIEW'')
   \<and> map_of exMerged ''users'' = map_of exTables ''users''"
proof -
  from LoadSchema_views_overwrite_tables [OF LoadSchema_ex] obtain args1 enumMap tableMap viewMap
    where e: "LoadEnums exX exLoader exArgs = Ok (args1, enumMap)"
      and t: "LoadRelkind exX exLoader args1 RelType.Table = Ok tableMap"
      and v: "LoadRelkind exX exLoader args1 View = Ok viewMap"
      and l: "\<forall>k. map_of exMerged k =
                (case map_of viewMap k of Some v \<Rightarrow> Some v | None \<Rightarrow> map_of tableMap k)"
    by blast
  from e have a: "args1 = exArgs"
    by (simp add: LoadEnums_ex)
  from t v have tv: "tableMap = exTables" "viewMap = exViews"
    unfolding a by (simp_all add: LoadRelkind_tables LoadRelkind_views)
  have r1: "map_of exTables ''report'' = Some (exReport RelType.Table ''TABLE'')"
    by (simp add: exTables_def)
  have r2: "map_of exViews ''report'' = Some (exReport View ''VIEW'')"
    by (simp add: exViews_def)
  have r3: "map_of exViews ''users'' = None"
    by (simp add: exViews_def)
  from l [rule_format, of "''report''"] l [rule_format, of "''users''"] r1 r2 r3
  have "map_of exMerged ''report'' = Some (exReport View ''VIEW'')"
    and "map_of exMerged ''users'' = map_of exTables ''users''"
    unfolding tv by simp_all
  with LoadSchema_ex LoadEnums_ex LoadRelkind_tables LoadRelkind_views r1 r2 show ?thesis
    by simp
qed

section \<open>Properties of the PostgreSQL loaders\<close>



lemma manualPk_iff:
  "manualPk sequences crAutoIncrements row =
     (Table.TableName row \<notin> Sequence.TableName ` set sequences
      \<and> Table.TableName row \<notin> CrAutoincrement.TableName ` set crAutoIncrements)"
proof -
  have a: "foldl (\<lambda>b x. if P x then False else b) b0 xs = (b0 \<and> \<not> (\<exists>x\<in>set xs. P x))"
    for P :: "'a \<Rightarrow> bool" and b0 xs
    by (induction xs arbitrary: b0) auto
  show ?thesis
    unfolding manualPk_def Let_def by (auto simp: a image_iff)
qed

lemma foldl_append_map: "foldl (\<lambda>acc x. acc @ [f x]) acc0 xs = acc0 @ map f xs"
  by (induction xs arbitrary: acc0) auto

text \<open>
  Claim C6, amended.  In \<open>PgTables\<close> an error of the table-list query is returned
  to the caller as it is.  An error of the query for the sequences or of the
  query for the auto-increment columns is replaced by an empty list, and the
  call returns the tables; when both fail, every table is marked \<open>ManualPk\<close>.
\<close>

theorem PgTables_errors:
  "(models_PgTables M db schema relkind = Inl err \<longrightarrow> PgTables M db schema relkind = Inl err)
   \<and> (models_PgTables M db schema relkind = Inr rows \<longrightarrow>
        PgTables M db schema relkind =
          Inr (map (\<lambda>row. \<lparr>Table.TableName = Table.TableName row, Table.Type = Table.Type row,
                            ManualPk = manualPk
                              (case PgSequences M db schema of Inl e \<Rightarrow> [] | Inr l \<Rightarrow> l)
                              (case CrAutoIncrements M db schema of Inl e \<Rightarrow> [] | Inr l \<Rightarrow> l)
                              row\<rparr>) rows))
   \<and> (models_PgTables M db schema relkind = Inr rows \<longrightarrow>
        PgSequences M db schema = Inl e1 \<longrightarrow> CrAutoIncrements M db schema = Inl e2 \<longrightarrow>
        PgTables M db schema relkind =
          Inr (map (\<lambda>row. \<lparr>Table.TableName = Table.TableName row, Table.Type = Table.Type row,
                            ManualPk = True\<rparr>) rows))"
  by (auto simp: PgTables_def Let_def foldl_append_map manualPk_def)

text \<open>
  Claim C6 as stated fails: the queries for the sequences and for the
  auto-increment columns return errors, and \<open>PgTables\<close> returns the tables.
\<close>

theorem PgTables_errors_counterexample:
  "PgSequences exModels exDB ''public'' = Inl (Error ''permission denied for sequences'')
   \<and> CrAutoIncrements exModels exDB ''public'' = Inl (Error ''relation does not exist'')
   \<and> PgTables exModels exDB ''public'' ''r''
       = Inr [\<lparr>Table.TableName = ''users'', Table.Type = ''r'', ManualPk = True\<rparr>,
              \<lparr>Table.TableName = ''orders'', Table.Type = ''r'', ManualPk = True\<rparr>]"
  by (simp add: PgTables_def exModels_def mkTable_def manualPk_def Let_def)

text \<open>
  The amended claim C6 on a catalog whose table-list query fails, and on the
  sample catalog.
\<close>

theorem PgTables_errors_witness:
  "models_PgTables (exModels\<lparr>models_PgTables := (\<lambda>db schema relkind. Inl (Error ''connection refused''))\<rparr>)
     exDB ''public'' ''r'' = Inl (Error ''connection refused'')
   \<and> PgTables (exModels\<lparr>models_PgTables := (\<lambda>db schema relkind. Inl (Error ''connection refused''))\<rparr>)
       exDB ''public'' ''r'' = Inl (Error ''connection refused'')
   \<and> models_PgTables exModels exDB ''public'' ''r'' = Inr [mkTable ''users'' ''r'', mkTable ''orders'' ''r'']
   \<and> PgSequences exModels exDB ''public'' = Inl (Error ''permission denied for sequences'')
   \<and> CrAutoIncrements exModels exDB ''public'' = Inl (Error ''relation does not exist'')
   \<and> PgTables exModels exDB ''public'' ''r''
       = Inr [\<lparr>Table.TableName = ''users'', Table.Type = ''r'', ManualPk = True\<rparr>,
              \<lparr>Table.TableName = ''orders'', Table.Type = ''r'', ManualPk = True\<rparr>]"
proof -
  let ?bad = "exModels\<lparr>models_PgTables := (\<lambda>db schema relkind. Inl (Error ''connection refused''))\<rparr>"
  have a: "models_PgTables ?bad exDB ''public'' ''r'' = Inl (Error ''connection refused'')"
    by simp
  have b: "models_PgTables exModels exDB ''public'' ''r'' = Inr [mkTable ''users'' ''r'', mkTable ''orders'' ''r'']"
    "PgSequences exModels exDB ''public'' = Inl (Error ''permission denied for sequences'')"
    "CrAutoIncrements exModels exDB ''public'' = Inl (Error ''relation does not exist'')"
    by (simp_all add: exModels_def)
  from PgTables_errors [of ?bad exDB "''public''" "''r''" "Error ''connection refused''"]
       PgTables_errors [of exModels exDB "''public''" "''r''" _ "[mkTable ''users'' ''r'', mkTable ''orders'' ''r'']"
          "Error ''permission denied for sequences''" "Error ''relation does not exist''"]
       a b
  show ?thesis
    by (simp add: mkTable_def manualPk_def)
qed


lemma PgQueryColumns_lookup_fails:
  assumes "ExecResult (DB args) (''CREATE VIEW '' @ ''_xo_'' @ GenRandomID X @ '' AS (''
             @ Join inspect [CHR 0x0A] @ '')'') = None"
    and "QueryRowScan (DB args) nspq (''_xo_'' @ GenRandomID X) = Inl err"
  shows "PgQueryColumns X M args inspect =
           ((DB args)\<lparr>Executed := Executed (DB args) @
               [''CREATE VIEW '' @ ''_xo_'' @ GenRandomID X @ '' AS ('' @ Join inspect [CHR 0x0A] @ '')'']\<rparr>,
            Inl err)"
  using assms by (simp add: PgQueryColumns_def Exec_def Let_def)

lemma PgQueryColumns_lookup_succeeds:
  assumes "ExecResult (DB args) (''CREATE VIEW '' @ ''_xo_'' @ GenRandomID X @ '' AS (''
             @ Join inspect [CHR 0x0A] @ '')'') = None"
    and "QueryRowScan (DB args) nspq (''_xo_'' @ GenRandomID X) = Inr schema"
  shows "Executed (fst (PgQueryColumns X M args inspect)) =
           Executed (DB args) @
             [''CREATE VIEW '' @ ''_xo_'' @ GenRandomID X @ '' AS ('' @ Join inspect [CHR 0x0A] @ '')'',
              ''DROP VIEW '' @ ''_xo_'' @ GenRandomID X]"
  using assms by (simp add: PgQueryColumns_def Exec_def Let_def split: option.splits)

text \<open>
  Claim C2.  The claim says that the view is dropped on every exit path after it
  was created.  When the query for the schema of the view fails,
  \<open>PgQueryColumns\<close> returns the error and the only statement it has executed is
  \<open>CREATE VIEW\<close>.
\<close>

theorem PgQueryColumns_leaves_view:
  "ExecResult exNoSchemaDB ''CREATE VIEW _xo_abc AS (SELECT 1 AS n)'' = None
   \<and> PgQueryColumns exX exModels (exArgs\<lparr>DB := exNoSchemaDB\<rparr>) [''SELECT 1 AS n'']
       = (exNoSchemaDB\<lparr>Executed := [''CREATE VIEW _xo_abc AS (SELECT 1 AS n)'']\<rparr>,
          Inl (Error ''sql: no rows in result set''))
   \<and> ''DROP VIEW _xo_abc'' \<notin> set (Executed (fst
         (PgQueryColumns exX exModels (exArgs\<lparr>DB := exNoSchemaDB\<rparr>) [''SELECT 1 AS n''])))"
  by (simp add: PgQueryColumns_def Exec_def Let_def exX_def exArgs_def exNoSchemaDB_def)


text \<open>
  Claim C3, amended.  In the standard mode, when \<open>ParsePrecision\<close> leaves the type
  name \<open>character varying\<close> as it is, \<open>character varying[]\<close> resolves to
  \<open>StringSlice\<close> with the zero value \<open>StringSlice{}\<close> when it is not nullable,
  and to \<open>[]sql.NullString\<close> with the zero value \<open>nil\<close> when it is nullable.
\<close>

theorem PgParseType_varchar_array:
  assumes "PgtypeMode args = PgtypeModeStd"
    and "ParsePrecision args ''character varying'' = (''character varying'', precision, scale)"
  shows "PgParseType X args ''character varying[]'' False = (precision, ''StringSlice{}'', ''StringSlice'')
         \<and> PgParseType X args ''character varying[]'' True = (precision, ''nil'', ''[]sql.NullString'')"
  using assms
  by (simp add: PgParseType.simps HasPrefix_def HasSuffix_def PostgresNameToPgtypeName_def
        postgresNameToGoName_def Let_def)

text \<open>
  Claim C3 as stated fails: the nullable \<open>character varying[]\<close> resolves to a
  slice of nullable strings.
\<close>

theorem PgParseType_varchar_array_counterexample:
  "snd (PgParseType exX exArgs ''character varying[]'' True) = (''nil'', ''[]sql.NullString'')
   \<and> snd (PgParseType exX exArgs ''character varying[]'' True) \<noteq> (''StringSlice{}'', ''StringSlice'')"
  by (simp add: PgParseType.simps HasPrefix_def HasSuffix_def PostgresNameToPgtypeName_def
        postgresNameToGoName_def Let_def exArgs_def)

text \<open>The amended claim C3 on the sample arguments.\<close>

theorem PgParseType_varchar_array_witness:
  "PgtypeMode exArgs = PgtypeModeStd
   \<and> ParsePrecision exArgs ''character varying'' = (''character varying'', 0, 0)
   \<and> snd (PgParseType exX exArgs ''character varying[]'' False) = (''StringSlice{}'', ''StringSlice'')
   \<and> snd (PgParseType exX exArgs ''character varying[]'' True) = (''nil'', ''[]sql.NullString'')"
proof -
  have a: "PgtypeMode exArgs = PgtypeModeStd"
    and b: "ParsePrecision exArgs ''character varying'' = (''character varying'', 0, 0)"
    by (simp_all add: exArgs_def)
  from PgParseType_varchar_array [OF a b, of exX] a b show ?thesis
    by simp
qed


section \<open>Properties of the camel-to-snake conversion\<close>


lemma Add_Inr:
  assumes "\<forall>s\<in>set xs. 2 \<le> len s"
  shows "Add ini xs =
           Inr \<lparr>ini_m = (\<lambda>s. ini_m ini s \<or> s \<in> set xs),
                ini_max = foldl (\<lambda>m s. max m (len s)) (ini_max ini) xs\<rparr>"
  using assms
proof (induction xs arbitrary: ini)
  case Nil
  then show ?case by simp
next
  case (Cons x xs)
  have "(ini_m ini)(x := True) = (\<lambda>s. ini_m ini s \<or> s = x)"
    by (auto simp: fun_eq_iff)
  with Cons show ?case
    by (auto simp: fun_eq_iff)
qed

lemma New_CommonInitialisms:
  "New CommonInitialisms = Inr DefaultInitialisms
   \<and> ini_max DefaultInitialisms = 5
   \<and> (\<forall>s. ini_m DefaultInitialisms s = (s \<in> set CommonInitialisms))"
proof -
  have l: "\<forall>s\<in>set CommonInitialisms. 2 \<le> len s"
    by (simp add: CommonInitialisms_def len_def runes_def RuneLen_def)
  have m: "foldl (\<lambda>m s. max m (len s)) 0 CommonInitialisms = 5"
    by (simp add: CommonInitialisms_def len_def runes_def RuneLen_def)
  from Add_Inr [OF l, of "\<lparr>ini_m = (\<lambda>s. False), ini_max = 0\<rparr>"] m
  have n: "New CommonInitialisms =
             Inr \<lparr>ini_m = (\<lambda>s. s \<in> set CommonInitialisms), ini_max = 5\<rparr>"
    by (simp add: New_def)
  then show ?thesis
    by (simp add: DefaultInitialisms_def)
qed

lemma Peek_not_upper: "\<not> IsUpper U c \<Longrightarrow> Peek U ini (c # rs) = []"
  by (cases "min (length (c # rs)) (ini_max ini)") (simp_all add: Peek_def Let_def)

lemma Peek_short: "Peek U ini [c] = []"
  by (simp add: Peek_def)

lemma CamelToSnake_three_bytes:
  assumes "\<not> IsUpper U 0x20AC" and "IsLetter U 99"
    and "ToLowerRune U 0x20AC = 0x20AC" and "ToLowerRune U 95 = 95" and "ToLowerRune U 99 = 99"
  shows "CamelToSnake U ini [0x20AC, 97, 98, 99] = [0x20AC, 95, 99]"
    and "CamelToSnake U ini [0x20AC, 95, 99] = [0x20AC]"
  using assms
  by (simp_all add: CamelToSnake_def nextOf_def Peek_not_upper Peek_short len_def RuneLen_def
        strings_ToLower_def Let_def)

text \<open>
  Claim C9.  The claim says that \<open>CamelToSnake\<close> returns its own results
  unchanged.  On the euro sign followed by \<open>abc\<close> it returns the euro sign,
  an underscore and \<open>c\<close>, and on this result it returns the euro sign alone: the
  loop advances its rune index by the length of \<open>next\<close> in bytes.
\<close>

theorem CamelToSnake_not_stable:
  "CamelToSnake asciiUnicode DefaultInitialisms exName = [0x20AC, 95, 99]
   \<and> CamelToSnake asciiUnicode DefaultInitialisms (CamelToSnake asciiUnicode DefaultInitialisms exName)
       = [0x20AC]
   \<and> CamelToSnake asciiUnicode DefaultInitialisms (CamelToSnake asciiUnicode DefaultInitialisms exName)
       \<noteq> CamelToSnake asciiUnicode DefaultInitialisms exName"
proof -
  have "\<not> IsUpper asciiUnicode 0x20AC" "IsLetter asciiUnicode 99"
    "ToLowerRune asciiUnicode 0x20AC = 0x20AC" "ToLowerRune asciiUnicode 95 = 95"
    "ToLowerRune asciiUnicode 99 = 99"
    by (simp_all add: asciiUnicode_def)
  from CamelToSnake_three_bytes [OF this, of DefaultInitialisms] show ?thesis
    by (simp add: exName_def)
qed




lemma Peek_search_subset: "set (Peek_search ini z j) \<subseteq> set z"
  by (induction j) (auto dest: in_set_takeD)

lemma Peek_subset: "set (Peek U ini r) \<subseteq> set r"
proof (cases "length r < 2 \<or> length (takeWhile (IsUpper U) (take (min (length r) (ini_max ini)) r)) < 2")
  case True
  then show ?thesis by (auto simp: Peek_def Let_def)
next
  case False
  let ?z = "takeWhile (IsUpper U) (take (min (length r) (ini_max ini)) r)"
  from False have "Peek U ini r = Peek_search ini ?z (min (ini_max ini) (length ?z))"
    by (simp add: Peek_def Let_def)
  moreover have "set ?z \<subseteq> set r"
    by (auto dest: set_takeWhileD in_set_takeD)
  ultimately show ?thesis
    using Peek_search_subset [of ini ?z "min (ini_max ini) (length ?z)"] by simp
qed

lemma nextOf_subset: "set (nextOf U ini lu li c rs) \<subseteq> set (c # rs)"
  using Peek_subset [of U ini "c # rs"] by (auto simp: nextOf_def Let_def)

lemma CamelToSnake_loop_subset:
  "set (CamelToSnake_loop U ini r st) \<subseteq> set (fst st) \<union> set r \<union> {95}"
proof (induction U ini r st rule: CamelToSnake_loop.induct)
  case (1 U ini st)
  then show ?case by auto
next
  case (2 U ini c rs st)
  obtain s lu ll li where st: "st = (s, lu, ll, li)"
    by (cases st)
  let ?next = "nextOf U ini lu li c rs"
  let ?s1 = "if (ll \<and> IsUpper U c) \<or> (li \<and> IsLetter U c) then s @ [95] else s"
  have IH: "set (CamelToSnake_loop U ini (drop (len ?next) (c # rs))
                   (?s1 @ ?next, IsUpper U c, IsLetter U c, 1 < len ?next))
              \<subseteq> set (?s1 @ ?next) \<union> set (drop (len ?next) (c # rs)) \<union> {95}"
    using "2.IH" [OF st [symmetric] refl refl refl refl refl refl] by simp
  have "set (drop (len ?next) (c # rs)) \<subseteq> set (c # rs)"
    by (rule set_drop_subset)
  with IH nextOf_subset [of U ini lu li c rs] show ?case
    unfolding st by (auto simp: Let_def split: if_splits)
qed

lemma CamelToSnake_loop_plain:
  assumes "\<forall>c\<in>set r. \<not> IsUpper U c \<and> c < 128"
  shows "CamelToSnake_loop U ini r (s, lu, ll, False) = s @ r"
  using assms
proof (induction r arbitrary: s lu ll)
  case Nil
  then show ?case by simp
next
  case (Cons c rs)
  then have c: "\<not> IsUpper U c" "c < 128" by simp_all
  have p: "Peek U ini (c # rs) = []"
    using c(1) by (cases "min (length (c # rs)) (ini_max ini)") (simp_all add: Peek_def Let_def)
  have n: "nextOf U ini lu False c rs = [c]"
    by (simp add: nextOf_def p)
  have l: "len [c] = 1"
    using c(2) by (simp add: len_def RuneLen_def)
  from Cons.prems have "\<forall>c\<in>set rs. \<not> IsUpper U c \<and> c < 128" by simp
  from Cons.IH [OF this] show ?case
    by (simp add: n l c(1))
qed

text \<open>
  On a string of ASCII characters the byte length and the number of runes agree,
  and \<open>CamelToSnake\<close> returns its own result unchanged, for all tables that map
  an ASCII character to an ASCII character that is not upper case and leave the
  ASCII characters that are not upper case as they are.
\<close>

lemma CamelToSnake_stable_on_ASCII:
  assumes name: "\<forall>c\<in>set name. c < 128"
    and lower: "\<forall>c. c < 128 \<longrightarrow> ToLowerRune U c < 128 \<and> \<not> IsUpper U (ToLowerRune U c)"
    and fixed: "\<forall>c. c < 128 \<longrightarrow> \<not> IsUpper U c \<longrightarrow> ToLowerRune U c = c"
  shows "CamelToSnake U ini (CamelToSnake U ini name) = CamelToSnake U ini name"
proof (cases "CamelToSnake U ini name = []")
  case True
  then show ?thesis by (simp add: CamelToSnake_def)
next
  case False
  let ?out = "CamelToSnake U ini name"
  let ?s = "CamelToSnake_loop U ini name ([], False, False, False)"
  from False have out: "?out = map (ToLowerRune U) ?s"
    by (auto simp: CamelToSnake_def strings_ToLower_def split: if_splits)
  from CamelToSnake_loop_subset [of U ini name "([], False, False, False)"] name
  have "\<forall>c\<in>set ?s. c < 128"
    by auto
  with lower have ok: "\<forall>c\<in>set ?out. \<not> IsUpper U c \<and> c < 128"
    unfolding out by auto
  with fixed have "map (ToLowerRune U) ?out = ?out"
    by (simp add: map_idI)
  with False CamelToSnake_loop_plain [OF ok, of ini "[]" False False] show ?thesis
    by (simp add: CamelToSnake_def [of U ini ?out] strings_ToLower_def)
qed



lemma CamelToSnake_stable_asciiUnicode:
  assumes "\<forall>c\<in>set name. c < 128"
  shows "CamelToSnake asciiUnicode ini (CamelToSnake asciiUnicode ini name) =
           CamelToSnake asciiUnicode ini name"
  by (rule CamelToSnake_stable_on_ASCII [OF assms]) (simp_all add: asciiUnicode_def)

end
